theory Spec2Isabelle
  imports Complex_Main "HOL-Library.Multiset"
begin

section \<open>JavaScript values\<close>

text \<open>
  The values that reach \<^verbatim>\<open>server.js\<close> come out of \<^verbatim>\<open>JSON.parse\<close> (the request body,
  through \<^verbatim>\<open>express.json()\<close>, and the geocoder's reply, through \<^verbatim>\<open>response.json()\<close>),
  plus \<^verbatim>\<open>undefined\<close>, which is what reading an absent property yields. A number is a
  double: the finite ones are taken as rationals (both zeros are the one \<open>Finite 0\<close>).
  A string is the list of its UTF-16 code units, and a character of the model is a code
  unit below 256: strings with other code units are not values of the model. An object
  is the list of its own properties, keys distinct, as the parser leaves them.
\<close>

datatype number = NaN | Infinity bool | Finite rat

datatype jsval =
    JUndefined
  | JNull
  | JBool bool
  | JNum number
  | JStr string
  | JArr "jsval list"
  | JObj "(string \<times> jsval) list"

datatype error =
    TypeError
  | SyntaxError
  | Error string
  | StoreError

text \<open>\<^verbatim>\<open>!v\<close>, \<^verbatim>\<open>v || d\<close>, \<^verbatim>\<open>v && e\<close> and \<^verbatim>\<open>v ? a : b\<close> all test ToBoolean of \<^verbatim>\<open>v\<close>.\<close>

fun truthy :: "jsval \<Rightarrow> bool" where
  "truthy JUndefined = False"
| "truthy JNull = False"
| "truthy (JBool b) = b"
| "truthy (JNum NaN) = False"
| "truthy (JNum (Infinity s)) = True"
| "truthy (JNum (Finite r)) = (r \<noteq> 0)"
| "truthy (JStr s) = (s \<noteq> [])"
| "truthy (JArr xs) = True"
| "truthy (JObj fs) = True"

text \<open>\<^verbatim>\<open>v || d\<close>.\<close>

definition or_else :: "jsval \<Rightarrow> jsval \<Rightarrow> jsval" where
  "or_else v d = (if truthy v then v else d)"

fun is_undefined :: "jsval \<Rightarrow> bool" where
  "is_undefined JUndefined = True"
| "is_undefined v = False"

text \<open>
  Reading a property \<^verbatim>\<open>v.k\<close> (also by destructuring). On \<^verbatim>\<open>undefined\<close> and \<^verbatim>\<open>null\<close> it
  throws a TypeError. On an object it is the own property, \<^verbatim>\<open>undefined\<close> when absent.
  The program only reads \<^verbatim>\<open>type\<close>, \<^verbatim>\<open>latitude\<close>, \<^verbatim>\<open>longitude\<close>, \<^verbatim>\<open>message\<close>,
  \<^verbatim>\<open>address\<close>, \<^verbatim>\<open>country\<close> and \<^verbatim>\<open>country_code\<close>; no prototype has a property of
  these names, so on a boolean, number, string or array the result is \<^verbatim>\<open>undefined\<close>.
\<close>

fun get_prop :: "jsval \<Rightarrow> string \<Rightarrow> error + jsval" where
  "get_prop JUndefined k = Inl TypeError"
| "get_prop JNull k = Inl TypeError"
| "get_prop (JObj fs) k = Inr (case map_of fs k of None \<Rightarrow> JUndefined | Some v \<Rightarrow> v)"
| "get_prop v k = Inr JUndefined"

text \<open>
  The conversion of a value to a string, as a template literal does it, throws a
  TypeError on an object that has a property \<^verbatim>\<open>toString\<close> of its own: a value that came
  out of the parser is no function, so neither it nor \<^verbatim>\<open>valueOf\<close> yields a primitive.
  An array is joined, which converts each element that is not \<^verbatim>\<open>null\<close>. Any other
  value has a string.
\<close>

fun to_string_throws :: "jsval \<Rightarrow> bool" where
  "to_string_throws (JObj fs) = (map_of fs ''toString'' \<noteq> None)"
| "to_string_throws (JArr xs) = list_ex to_string_throws xs"
| "to_string_throws v = False"

text \<open>
  \<^verbatim>\<open>String.prototype.toUpperCase\<close>. On a string of ASCII characters the language fixes
  the result: the letters a to z become A to Z and nothing else changes. On a string
  with any other character the result comes from the Unicode tables of the runtime (it
  may be longer than the string: the upper case of a sharp s is SS); the tables are the
  parameter \<open>tables\<close>.
\<close>

definition is_ascii :: "char \<Rightarrow> bool" where
  "is_ascii c = ((of_char c :: nat) < 128)"

definition is_lower :: "char \<Rightarrow> bool" where
  "is_lower c = (97 \<le> (of_char c :: nat) \<and> (of_char c :: nat) \<le> 122)"

definition toUpperCase_char :: "char \<Rightarrow> char" where
  "toUpperCase_char c = (if is_lower c then char_of ((of_char c :: nat) - 32) else c)"

definition toUpperCase :: "(string \<Rightarrow> string) \<Rightarrow> string \<Rightarrow> string" where
  "toUpperCase tables s = (if list_all is_ascii s then map toUpperCase_char s else tables s)"

text \<open>
  The method call \<^verbatim>\<open>v.toUpperCase()\<close>: only a string has the method; on any other
  value \<^verbatim>\<open>v.toUpperCase\<close> is not a function and the call throws a TypeError.
\<close>

fun call_toUpperCase :: "(string \<Rightarrow> string) \<Rightarrow> jsval \<Rightarrow> error + jsval" where
  "call_toUpperCase tables (JStr s) = Inr (JStr (toUpperCase tables s))"
| "call_toUpperCase tables v = Inl TypeError"

section \<open>The reverse geocoder\<close>

text \<open>
  What \<^verbatim>\<open>fetch\<close> resolves to: the HTTP status, and how \<^verbatim>\<open>response.text()\<close> and
  \<^verbatim>\<open>response.json()\<close> settle (\<open>Inl\<close> when the promise rejects, as \<^verbatim>\<open>json()\<close> does on
  a body that is not JSON). \<^verbatim>\<open>response.ok\<close> is true for a status from 200 to 299.
\<close>

record response =
  status :: nat
  text_body :: "error + string"
  json_body :: "error + jsval"

definition ok :: "response \<Rightarrow> bool" where
  "ok r = (200 \<le> status r \<and> status r \<le> 299)"

record geo =
  countryName :: jsval
  countryCode :: jsval

definition fallback :: geo where
  "fallback = \<lparr>countryName = JStr ''an unknown location'', countryCode = JStr ''XX''\<rparr>"

definition open_sea :: geo where
  "open_sea = \<lparr>countryName = JStr ''the open sea'', countryCode = JStr ''XX''\<rparr>"

text \<open>
  Lines 50 to 57: what is returned for the parsed reply \<open>data\<close>. The two fields of the
  result are computed one after the other; \<^verbatim>\<open>toUpperCase\<close> may throw.
\<close>

definition country_of :: "(string \<Rightarrow> string) \<Rightarrow> jsval \<Rightarrow> error + geo" where
  "country_of tables data =
     (if \<not> truthy data then Inr open_sea
      else (case get_prop data ''address'' of
        Inl e \<Rightarrow> Inl e
      | Inr address \<Rightarrow>
          (if \<not> truthy address then Inr open_sea
           else (case get_prop address ''country'' of
             Inl e \<Rightarrow> Inl e
           | Inr country \<Rightarrow>
               (case get_prop address ''country_code'' of
                  Inl e \<Rightarrow> Inl e
                | Inr country_code \<Rightarrow>
                    (if truthy country_code
                     then (case call_toUpperCase tables country_code of
                             Inl e \<Rightarrow> Inl e
                           | Inr code \<Rightarrow>
                               Inr \<lparr>countryName = or_else country (JStr ''the open sea''),
                                    countryCode = code\<rparr>)
                     else Inr \<lparr>countryName = or_else country (JStr ''the open sea''),
                              countryCode = JStr ''XX''\<rparr>))))))"

text \<open>
  Lines 44 to 57 after the \<^verbatim>\<open>fetch\<close> has been called, given how it settled: \<open>Inl\<close> is
  an exception thrown inside the \<^verbatim>\<open>try\<close> block. The \<^verbatim>\<open>console.error\<close> calls write to
  the log only.
\<close>

definition after_fetch :: "(string \<Rightarrow> string) \<Rightarrow> error + response \<Rightarrow> error + geo" where
  "after_fetch tables fetched =
     (case fetched of
        Inl e \<Rightarrow> Inl e
      | Inr r \<Rightarrow>
          (if \<not> ok r
           then (case text_body r of
                   Inl e \<Rightarrow> Inl e
                 | Inr t \<Rightarrow> Inl (Error ''Network response was not ok from Nominatim.''))
           else (case json_body r of
                   Inl e \<Rightarrow> Inl e
                 | Inr data \<Rightarrow> country_of tables data)))"

section \<open>The store and the outside world\<close>

text \<open>
  A document of the \<^verbatim>\<open>hearts\<close> collection, with the fields of \<^verbatim>\<open>heartSchema\<close>
  (lines 28 to 36). The fields hold the values as \<^verbatim>\<open>new Heart\<close> has cast them; the
  identifier the driver generates is not part of the model, and whether the driver
  accepts a document (the required fields, the enumeration of \<^verbatim>\<open>type\<close>) is part of
  what the outside does, below. A \<^verbatim>\<open>Date\<close> is its number of milliseconds since the
  epoch.
\<close>

record heart = geo +
  type :: jsval
  latitude :: jsval
  longitude :: jsval
  message :: jsval
  timestamp :: int

text \<open>
  The calls that leave the process, in the order they are made: the request to the
  geocoder with the two coordinates that go into its URL, \<^verbatim>\<open>save\<close> with the document,
  and \<^verbatim>\<open>find\<close>.
\<close>

datatype call = Fetch jsval jsval | Save heart | Find

record world =
  hearts :: "heart list"
  calls :: "call list"

text \<open>The two types that \<^verbatim>\<open>heartSchema\<close> gives to the fields the handler fills from JSON.\<close>

datatype schema_type = SString | SNumber

text \<open>
  What the runtime and the outside do during one request: how the \<^verbatim>\<open>fetch\<close> settles,
  if it is called; the reading of the clock when the request is received and the
  milliseconds that pass until \<^verbatim>\<open>new Date()\<close> on line 83 runs (the clock is not set back
  in between); whether \<^verbatim>\<open>save\<close> and \<^verbatim>\<open>find\<close> reject (schema validation included);
  the Unicode tables of \<^verbatim>\<open>toUpperCase\<close>; and what the driver makes of a value that is
  not of the type its field has in the schema (another value of the type, or
  \<^verbatim>\<open>undefined\<close> when it drops the value). Every promise settles.
\<close>

record env =
  fetch_result :: "error + response"
  received_at :: int
  elapsed :: nat
  save_error :: "error option"
  find_error :: "error option"
  unicode_upper :: "string \<Rightarrow> string"
  driver_cast :: "schema_type \<Rightarrow> jsval \<Rightarrow> jsval"

text \<open>
  Stand-ins for the last two in the examples: tables that change nothing, for examples
  whose strings are ASCII, where the tables are not consulted; and a driver that drops
  every value it is asked to cast, as the driver does with a string that is not numeric
  in a field of type Number.
\<close>

definition no_tables :: "string \<Rightarrow> string" where
  "no_tables s = s"

definition dropping :: "schema_type \<Rightarrow> jsval \<Rightarrow> jsval" where
  "dropping t v = JUndefined"

definition log_call :: "call \<Rightarrow> world \<Rightarrow> world" where
  "log_call c w = w\<lparr>calls := calls w @ [c]\<rparr>"

text \<open>
  Line 44 builds the URL from the two coordinates before it calls \<^verbatim>\<open>fetch\<close>: when the
  conversion of one of them to a string throws, no request is made.
\<close>

definition url_throws :: "jsval \<Rightarrow> jsval \<Rightarrow> bool" where
  "url_throws lat lng = (to_string_throws lat \<or> to_string_throws lng)"

definition request :: "jsval \<Rightarrow> jsval \<Rightarrow> world \<Rightarrow> world" where
  "request lat lng w = (if url_throws lat lng then w else log_call (Fetch lat lng) w)"

text \<open>Lines 44 to 57, the body of the \<^verbatim>\<open>try\<close>: its result, or the exception it throws.\<close>

definition getCountry_try :: "env \<Rightarrow> jsval \<Rightarrow> jsval \<Rightarrow> error + geo" where
  "getCountry_try env lat lng =
     (if url_throws lat lng then Inl TypeError
      else after_fetch (unicode_upper env) (fetch_result env))"

text \<open>
  \<^verbatim>\<open>getCountryFromServerLatLng\<close>, lines 42 to 62: the \<^verbatim>\<open>catch\<close> turns every exception
  of the block into the fallback pair. The result type keeps the exception the caller
  would see, were one to escape.
\<close>

definition getCountryFromServerLatLng ::
  "env \<Rightarrow> jsval \<Rightarrow> jsval \<Rightarrow> world \<Rightarrow> (error + geo) \<times> world" where
  "getCountryFromServerLatLng env lat lng w =
     (case getCountry_try env lat lng of
        Inl e \<Rightarrow> (Inr fallback, request lat lng w)
      | Inr g \<Rightarrow> (Inr g, request lat lng w))"

section \<open>The handlers\<close>

datatype payload = ErrorJson string | HeartJson heart | HeartsJson "heart list"

record reply =
  code :: nat
  body :: payload

text \<open>
  \<^verbatim>\<open>new Heart({...})\<close>, with \<^verbatim>\<open>heartSchema\<close> of lines 28 to 36. A default applies to a
  field that is \<^verbatim>\<open>undefined\<close>. Each field is cast to its type in the schema: a string
  in a field of type String and a finite number in a field of type Number are kept as
  they are, and any other value becomes what the driver makes of it. The handler always
  passes a \<^verbatim>\<open>Date\<close> as timestamp.
\<close>

definition with_default :: "jsval \<Rightarrow> jsval \<Rightarrow> jsval" where
  "with_default d v = (if is_undefined v then d else v)"

fun of_type :: "schema_type \<Rightarrow> jsval \<Rightarrow> bool" where
  "of_type SString (JStr s) = True"
| "of_type SNumber (JNum (Finite r)) = True"
| "of_type t v = False"

definition cast :: "env \<Rightarrow> schema_type \<Rightarrow> jsval \<Rightarrow> jsval" where
  "cast env t v = (if of_type t v then v else driver_cast env t v)"

definition new_Heart ::
  "env \<Rightarrow> jsval \<Rightarrow> jsval \<Rightarrow> jsval \<Rightarrow> jsval \<Rightarrow> jsval \<Rightarrow> jsval \<Rightarrow> int \<Rightarrow> heart" where
  "new_Heart env ty lat lng msg cname ccode ts =
     \<lparr>countryName = cast env SString (with_default (JStr ''Unknown'') cname),
      countryCode = cast env SString (with_default (JStr ''XX'') ccode),
      type = cast env SString ty,
      latitude = cast env SNumber lat,
      longitude = cast env SNumber lng,
      message = cast env SString (with_default (JStr []) msg),
      timestamp = ts\<rparr>"

text \<open>\<^verbatim>\<open>await newHeart.save()\<close>: the document is in the collection when the promise resolves.\<close>

definition save :: "env \<Rightarrow> heart \<Rightarrow> world \<Rightarrow> (error + unit) \<times> world" where
  "save env h w =
     (case save_error env of
        Some e \<Rightarrow> (Inl e, log_call (Save h) w)
      | None \<Rightarrow> (Inr (), (log_call (Save h) w)\<lparr>hearts := hearts w @ [h]\<rparr>))"

text \<open>
  \<^verbatim>\<open>await Heart.find().sort({ timestamp: -1 })\<close>: all documents, the greatest timestamp
  first.
\<close>

definition find_sorted :: "env \<Rightarrow> world \<Rightarrow> (error + heart list) \<times> world" where
  "find_sorted env w =
     (case find_error env of
        Some e \<Rightarrow> (Inl e, log_call Find w)
      | None \<Rightarrow> (Inr (sort_key (\<lambda>h. - timestamp h) (hearts w)), log_call Find w))"

text \<open>
  Line 67: the destructuring of \<^verbatim>\<open>req.body\<close>, which throws on \<^verbatim>\<open>undefined\<close> and
  \<^verbatim>\<open>null\<close>.
\<close>

definition destructure :: "jsval \<Rightarrow> error + (jsval \<times> jsval \<times> jsval \<times> jsval)" where
  "destructure b =
     (case get_prop b ''type'' of
        Inl e \<Rightarrow> Inl e
      | Inr ty \<Rightarrow>
          (case get_prop b ''latitude'' of
             Inl e \<Rightarrow> Inl e
           | Inr lat \<Rightarrow>
               (case get_prop b ''longitude'' of
                  Inl e \<Rightarrow> Inl e
                | Inr lng \<Rightarrow>
                    (case get_prop b ''message'' of
                       Inl e \<Rightarrow> Inl e
                     | Inr msg \<Rightarrow> Inr (ty, lat, lng, msg)))))"

definition failed_to_create :: reply where
  "failed_to_create = \<lparr>code = 500, body = ErrorJson ''Failed to create heart''\<rparr>"

definition missing_fields :: reply where
  "missing_fields =
     \<lparr>code = 400, body = ErrorJson ''Missing required fields: type, latitude, longitude''\<rparr>"

text \<open>
  \<^verbatim>\<open>POST /api/hearts\<close>, lines 65 to 92, on the request body \<open>b\<close>. Every exception of
  the block ends in the \<^verbatim>\<open>catch\<close> of line 88.
\<close>

definition post_hearts :: "env \<Rightarrow> jsval \<Rightarrow> world \<Rightarrow> reply \<times> world" where
  "post_hearts env b w =
     (case destructure b of
        Inl e \<Rightarrow> (failed_to_create, w)
      | Inr (ty, lat, lng, msg) \<Rightarrow>
          (if is_undefined lat \<or> is_undefined lng \<or> \<not> truthy ty
           then (missing_fields, w)
           else (case getCountryFromServerLatLng env lat lng w of
                   (Inl e, w1) \<Rightarrow> (failed_to_create, w1)
                 | (Inr g, w1) \<Rightarrow>
                     (let newHeart =
                            new_Heart env ty lat lng (or_else msg (JStr []))
                              (countryName g) (countryCode g)
                              (received_at env + int (elapsed env))
                      in (case save env newHeart w1 of
                            (Inl e, w2) \<Rightarrow> (failed_to_create, w2)
                          | (Inr u, w2) \<Rightarrow> (\<lparr>code = 201, body = HeartJson newHeart\<rparr>, w2))))))"

text \<open>\<^verbatim>\<open>GET /api/hearts\<close>, lines 95 to 103.\<close>

definition get_hearts :: "env \<Rightarrow> world \<Rightarrow> reply \<times> world" where
  "get_hearts env w =
     (case find_sorted env w of
        (Inl e, w1) \<Rightarrow> (\<lparr>code = 500, body = ErrorJson ''Failed to fetch hearts''\<rparr>, w1)
      | (Inr hs, w1) \<Rightarrow> (\<lparr>code = 200, body = HeartsJson hs\<rparr>, w1))"

text \<open>Requests served one after the other, each with what the outside does during it.\<close>

fun post_all :: "(env \<times> jsval) list \<Rightarrow> world \<Rightarrow> reply list \<times> world" where
  "post_all [] w = ([], w)"
| "post_all ((env, b) # reqs) w =
     (case post_hearts env b w of
        (r, w1) \<Rightarrow> (case post_all reqs w1 of (rs, w2) \<Rightarrow> (r # rs, w2)))"

definition created :: "reply list \<Rightarrow> nat" where
  "created rs = length (filter (\<lambda>r. code r = 201) rs)"

section \<open>The invariant on country codes\<close>

text \<open>
  The value under \<^verbatim>\<open>address.country_code\<close> in the body of the geocoder's reply,
  \<^verbatim>\<open>undefined\<close> when there is none; and the replies whose country code, when it is a
  non-empty string, has two characters, both ASCII.
\<close>

definition reply_country_code :: "env \<Rightarrow> jsval" where
  "reply_country_code env =
     (case fetch_result env of
        Inl e \<Rightarrow> JUndefined
      | Inr r \<Rightarrow>
          (case json_body r of
             Inl e \<Rightarrow> JUndefined
           | Inr data \<Rightarrow>
               (case get_prop data ''address'' of
                  Inl e \<Rightarrow> JUndefined
                | Inr address \<Rightarrow>
                    (case get_prop address ''country_code'' of
                       Inl e \<Rightarrow> JUndefined
                     | Inr country_code \<Rightarrow> country_code))))"

definition two_char_reply :: "env \<Rightarrow> bool" where
  "two_char_reply env =
     (case reply_country_code env of
        JStr s \<Rightarrow> s = [] \<or> (length s = 2 \<and> list_all is_ascii s)
      | v \<Rightarrow> True)"

text \<open>
  A stored document with a two-character upper-case code: a string of two characters,
  neither of them one of the letters a to z.
\<close>

definition two_char_code :: "heart \<Rightarrow> bool" where
  "two_char_code h =
     (case countryCode h of
        JStr s \<Rightarrow> length s = 2 \<and> list_all (\<lambda>c. \<not> is_lower c) s
      | v \<Rightarrow> False)"

section \<open>Facts about the model\<close>

lemma getCountry_logs:
  "snd (getCountryFromServerLatLng env lat lng w) = request lat lng w"
  by (simp add: getCountryFromServerLatLng_def split: sum.splits)

lemma getCountry_caught:
  "getCountry_try env lat lng = Inl e \<Longrightarrow>
   getCountryFromServerLatLng env lat lng w = (Inr fallback, request lat lng w)"
  by (simp add: getCountryFromServerLatLng_def)

lemma getCountry_returned:
  "getCountry_try env lat lng = Inr g \<Longrightarrow>
   getCountryFromServerLatLng env lat lng w = (Inr g, request lat lng w)"
  by (simp add: getCountryFromServerLatLng_def)

lemma getCountry_never_throws:
  "\<exists>g. getCountryFromServerLatLng env lat lng w = (Inr g, request lat lng w)"
  by (cases "getCountry_try env lat lng") (simp_all add: getCountryFromServerLatLng_def)

lemma calls_request:
  "calls (request lat lng w) = calls w @ (if url_throws lat lng then [] else [Fetch lat lng])"
  by (simp add: request_def log_call_def)

lemma hearts_request: "hearts (request lat lng w) = hearts w"
  by (simp add: request_def log_call_def)

lemma request_made:
  "\<not> url_throws lat lng \<Longrightarrow> request lat lng w = w\<lparr>calls := calls w @ [Fetch lat lng]\<rparr>"
  by (simp add: request_def log_call_def)

lemma no_request: "url_throws lat lng \<Longrightarrow> request lat lng w = w"
  by (simp add: request_def)

lemma url_throws_throws: "url_throws lat lng \<Longrightarrow> getCountry_try env lat lng = Inl TypeError"
  by (simp add: getCountry_try_def)

lemma rejected_fetch_throws:
  "\<not> url_throws lat lng \<Longrightarrow> fetch_result env = Inl e \<Longrightarrow> getCountry_try env lat lng = Inl e"
  by (simp add: getCountry_try_def after_fetch_def)

lemma unparsable_body_throws:
  "\<not> url_throws lat lng \<Longrightarrow> fetch_result env = Inr r \<Longrightarrow> ok r \<Longrightarrow> json_body r = Inl e \<Longrightarrow>
   getCountry_try env lat lng = Inl e"
  by (simp add: getCountry_try_def after_fetch_def)

lemma not_ok_throws:
  "\<not> ok r \<Longrightarrow> \<exists>e. after_fetch tables (Inr r) = Inl e"
  by (simp add: after_fetch_def split: sum.splits)

lemma not_ok_try_throws:
  assumes "fetch_result env = Inr r" and "\<not> ok r"
  shows "\<exists>e. getCountry_try env lat lng = Inl e"
  using assms not_ok_throws [of r "unicode_upper env"]
  by (cases "url_throws lat lng") (simp_all add: getCountry_try_def)

lemma getCountry_parsed:
  assumes "\<not> url_throws lat lng"
    and "fetch_result env = Inr r" and "ok r" and "json_body r = Inr data"
  shows "getCountry_try env lat lng = country_of (unicode_upper env) data"
  using assms by (simp add: getCountry_try_def after_fetch_def)

lemma or_else_truthy: "truthy v \<Longrightarrow> or_else v d = v"
  by (simp add: or_else_def)

lemma or_else_falsy: "\<not> truthy v \<Longrightarrow> or_else v d = d"
  by (simp add: or_else_def)

lemma cast_string: "cast env SString (JStr s) = JStr s"
  by (simp add: cast_def)

lemma cast_number: "cast env SNumber (JNum (Finite r)) = JNum (Finite r)"
  by (simp add: cast_def)

lemma message_default:
  "with_default (JStr []) (or_else msg (JStr [])) = or_else msg (JStr [])"
  by (cases msg) (simp_all add: with_default_def or_else_def)

lemma with_default_defined: "\<not> is_undefined v \<Longrightarrow> with_default d v = v"
  by (simp add: with_default_def)

lemma new_Heart_fields:
  "new_Heart env ty lat lng (or_else msg (JStr [])) (JStr n) (JStr c) ts =
     \<lparr>countryName = JStr n, countryCode = JStr c, type = cast env SString ty,
      latitude = cast env SNumber lat, longitude = cast env SNumber lng,
      message = cast env SString (or_else msg (JStr [])), timestamp = ts\<rparr>"
  unfolding new_Heart_def message_default by (simp add: with_default_def cast_string)

lemma new_Heart_timestamp: "timestamp (new_Heart env ty lat lng msg cn cc ts) = ts"
  by (simp add: new_Heart_def)

lemma new_Heart_coordinates:
  "latitude (new_Heart env ty lat lng msg cn cc ts) = cast env SNumber lat \<and>
   longitude (new_Heart env ty lat lng msg cn cc ts) = cast env SNumber lng"
  by (simp add: new_Heart_def)

lemma new_Heart_message:
  "message (new_Heart env ty lat lng (or_else msg (JStr [])) cn cc ts) =
     (if truthy msg then cast env SString msg else JStr [])"
  unfolding new_Heart_def message_default by (simp add: or_else_def cast_string)

lemma post_hearts_valid:
  assumes "destructure b = Inr (ty, lat, lng, msg)"
    and "\<not> is_undefined lat" and "\<not> is_undefined lng" and "truthy ty"
    and "getCountryFromServerLatLng env lat lng w = (Inr g, w1)"
  shows "post_hearts env b w =
           (case save env (new_Heart env ty lat lng (or_else msg (JStr [])) (countryName g)
                             (countryCode g) (received_at env + int (elapsed env))) w1 of
              (Inl e, w2) \<Rightarrow> (failed_to_create, w2)
            | (Inr u, w2) \<Rightarrow>
                (\<lparr>code = 201,
                  body = HeartJson (new_Heart env ty lat lng (or_else msg (JStr []))
                             (countryName g) (countryCode g)
                             (received_at env + int (elapsed env)))\<rparr>, w2))"
  using assms by (simp add: post_hearts_def Let_def)

lemma save_resolves:
  "save_error env = None \<Longrightarrow>
   save env h w = (Inr (), \<lparr>hearts = hearts w @ [h], calls = calls w @ [Save h]\<rparr>)"
  by (simp add: save_def log_call_def)

lemma destructure_object:
  "destructure (JObj fs) =
     Inr (case map_of fs ''type'' of None \<Rightarrow> JUndefined | Some v \<Rightarrow> v,
          case map_of fs ''latitude'' of None \<Rightarrow> JUndefined | Some v \<Rightarrow> v,
          case map_of fs ''longitude'' of None \<Rightarrow> JUndefined | Some v \<Rightarrow> v,
          case map_of fs ''message'' of None \<Rightarrow> JUndefined | Some v \<Rightarrow> v)"
  by (simp add: destructure_def)

lemma post_hearts_invalid:
  assumes "destructure b = Inr (ty, lat, lng, msg)"
    and "is_undefined lat \<or> is_undefined lng \<or> \<not> truthy ty"
  shows "post_hearts env b w = (missing_fields, w)"
  using assms by (auto simp: post_hearts_def)

lemma save_code:
  "code (fst (case save env h w1 of
                (Inl e, w2) \<Rightarrow> (failed_to_create, w2)
              | (Inr u, w2) \<Rightarrow> (\<lparr>code = 201, body = HeartJson h\<rparr>, w2))) \<noteq> 400"
  by (simp add: save_def failed_to_create_def split: option.splits)

lemma country_of_no_address:
  "\<not> truthy data \<or> (\<exists>a. get_prop data ''address'' = Inr a \<and> \<not> truthy a) \<Longrightarrow>
   country_of tables data = Inr open_sea"
  by (auto simp: country_of_def)

lemma country_of_address:
  assumes "truthy data" and "get_prop data ''address'' = Inr address" and "truthy address"
    and "get_prop address ''country'' = Inr country"
    and "get_prop address ''country_code'' = Inr country_code"
  shows "country_of tables data =
           (if truthy country_code
            then (case call_toUpperCase tables country_code of
                    Inl e \<Rightarrow> Inl e
                  | Inr c \<Rightarrow> Inr \<lparr>countryName = or_else country (JStr ''the open sea''),
                                 countryCode = c\<rparr>)
            else Inr \<lparr>countryName = or_else country (JStr ''the open sea''),
                     countryCode = JStr ''XX''\<rparr>)"
  using assms by (simp add: country_of_def)

lemma toUpperCase_ascii:
  "list_all is_ascii s \<Longrightarrow> toUpperCase tables s = map toUpperCase_char s"
  by (simp add: toUpperCase_def)

lemma ascii_fr: "list_all is_ascii ''fr''"
  by (simp add: is_ascii_def)

lemma upper_fr: "map toUpperCase_char ''fr'' = ''FR''"
  by code_simp

lemma char_of_F: "char_of (70 :: nat) = CHR ''F''"
  by code_simp

lemma char_of_R: "char_of (82 :: nat) = CHR ''R''"
  by code_simp

lemma toUpperCase_fr: "toUpperCase tables ''fr'' = ''FR''"
  by (simp only: toUpperCase_ascii [OF ascii_fr] upper_fr)

lemma france_is_stored:
  "hearts (snd (post_hearts
     \<lparr>fetch_result = Inr \<lparr>status = 200, text_body = Inr [],
        json_body = Inr (JObj [(''address'',
          JObj [(''country'', JStr ''France''), (''country_code'', JStr ''fr'')])])\<rparr>,
      received_at = 1000, elapsed = 250, save_error = None, find_error = None,
      unicode_upper = no_tables, driver_cast = dropping\<rparr>
     (JObj [(''type'', JStr ''redHeart''), (''latitude'', JNum (Finite 48)),
            (''longitude'', JNum (Finite 2))])
     \<lparr>hearts = [], calls = []\<rparr>))
   = [\<lparr>countryName = JStr ''France'', countryCode = JStr ''FR'',
       type = JStr ''redHeart'', latitude = JNum (Finite 48),
       longitude = JNum (Finite 2), message = JStr [], timestamp = 1250\<rparr>]"
  by (simp add: post_hearts_def destructure_def getCountryFromServerLatLng_def
      getCountry_try_def after_fetch_def ok_def country_of_def or_else_def toUpperCase_fr
      new_Heart_def with_default_def cast_def save_def request_def url_throws_def
      log_call_def Let_def)

lemma post_hearts_cases:
  assumes "post_hearts env b w = (r, w')"
  shows "(r = failed_to_create \<and> hearts w' = hearts w) \<or>
         (r = missing_fields \<and> w' = w) \<or>
         (\<exists>ty lat lng msg g h.
            destructure b = Inr (ty, lat, lng, msg) \<and>
            fst (getCountryFromServerLatLng env lat lng w) = Inr g \<and>
            h = new_Heart env ty lat lng (or_else msg (JStr [])) (countryName g) (countryCode g)
                  (received_at env + int (elapsed env)) \<and>
            r = \<lparr>code = 201, body = HeartJson h\<rparr> \<and>
            hearts w' = hearts w @ [h])"
proof (cases "destructure b")
  case (Inl e)
  with assms show ?thesis by (simp add: post_hearts_def)
next
  case (Inr t)
  obtain ty lat lng msg where t: "t = (ty, lat, lng, msg)"
    by (cases t) auto
  show ?thesis
  proof (cases "is_undefined lat \<or> is_undefined lng \<or> \<not> truthy ty")
    case True
    with assms Inr t show ?thesis
      using post_hearts_invalid [of b ty lat lng msg env w] by simp
  next
    case False
    obtain g where g: "getCountryFromServerLatLng env lat lng w = (Inr g, request lat lng w)"
      using getCountry_never_throws by blast
    have p: "post_hearts env b w =
           (case save env (new_Heart env ty lat lng (or_else msg (JStr [])) (countryName g)
                             (countryCode g) (received_at env + int (elapsed env)))
                   (request lat lng w) of
              (Inl e, w2) \<Rightarrow> (failed_to_create, w2)
            | (Inr u, w2) \<Rightarrow>
                (\<lparr>code = 201,
                  body = HeartJson (new_Heart env ty lat lng (or_else msg (JStr []))
                             (countryName g) (countryCode g)
                             (received_at env + int (elapsed env)))\<rparr>, w2))"
      using False Inr t post_hearts_valid [of b ty lat lng msg env w g] g by simp
    show ?thesis
    proof (cases "save_error env")
      case None
      with p assms Inr t g show ?thesis
        by (auto simp: save_def log_call_def hearts_request)
    next
      case (Some e)
      with p assms show ?thesis
        by (auto simp: save_def log_call_def hearts_request)
    qed
  qed
qed

lemma post_hearts_length:
  assumes "post_hearts env b w = (r, w')"
  shows "length (hearts w') = length (hearts w) + (if code r = 201 then 1 else 0)"
  using post_hearts_cases [OF assms]
  by (auto simp: failed_to_create_def missing_fields_def)

lemma post_all_length:
  "post_all reqs w = (rs, w') \<Longrightarrow> length (hearts w') = length (hearts w) + created rs"
proof (induction reqs arbitrary: w rs w')
  case Nil
  then show ?case by (simp add: created_def)
next
  case (Cons q reqs)
  obtain env b where q: "q = (env, b)" by (cases q)
  obtain r w1 where p: "post_hearts env b w = (r, w1)" by (cases "post_hearts env b w")
  obtain rs1 w2 where a: "post_all reqs w1 = (rs1, w2)" by (cases "post_all reqs w1")
  from Cons.prems q p a have e: "rs = r # rs1" "w' = w2" by simp_all
  from Cons.IH [OF a] post_hearts_length [OF p] e show ?case
    by (simp add: created_def)
qed

lemma sorted_desc:
  "sorted_wrt (\<lambda>a b. timestamp b \<le> timestamp a) (sort_key (\<lambda>h. - timestamp h) hs)"
proof -
  have "sorted (map (\<lambda>h. - timestamp h) (sort_key (\<lambda>h. - timestamp h) hs))"
    by (rule sorted_sort_key)
  then show ?thesis
    by (simp add: sorted_map)
qed

lemma two_posts:
  "post_all
     [(\<lparr>fetch_result = Inl TypeError, received_at = 1000, elapsed = 5,
        save_error = None, find_error = None,
        unicode_upper = no_tables, driver_cast = dropping\<rparr>,
       JObj [(''type'', JStr ''redHeart''), (''latitude'', JNum (Finite 1)),
             (''longitude'', JNum (Finite 2))]),
      (\<lparr>fetch_result = Inl TypeError, received_at = 2000, elapsed = 5,
        save_error = None, find_error = None,
        unicode_upper = no_tables, driver_cast = dropping\<rparr>,
       JObj [(''type'', JStr ''silverHeart''), (''latitude'', JNum (Finite 3)),
             (''longitude'', JNum (Finite 4))])]
     \<lparr>hearts = [], calls = []\<rparr>
   = ([\<lparr>code = 201, body = HeartJson
         \<lparr>countryName = JStr ''an unknown location'', countryCode = JStr ''XX'',
          type = JStr ''redHeart'', latitude = JNum (Finite 1), longitude = JNum (Finite 2),
          message = JStr [], timestamp = 1005\<rparr>\<rparr>,
       \<lparr>code = 201, body = HeartJson
         \<lparr>countryName = JStr ''an unknown location'', countryCode = JStr ''XX'',
          type = JStr ''silverHeart'', latitude = JNum (Finite 3), longitude = JNum (Finite 4),
          message = JStr [], timestamp = 2005\<rparr>\<rparr>],
      \<lparr>hearts =
        [\<lparr>countryName = JStr ''an unknown location'', countryCode = JStr ''XX'',
          type = JStr ''redHeart'', latitude = JNum (Finite 1), longitude = JNum (Finite 2),
          message = JStr [], timestamp = 1005\<rparr>,
         \<lparr>countryName = JStr ''an unknown location'', countryCode = JStr ''XX'',
          type = JStr ''silverHeart'', latitude = JNum (Finite 3), longitude = JNum (Finite 4),
          message = JStr [], timestamp = 2005\<rparr>],
       calls =
        [Fetch (JNum (Finite 1)) (JNum (Finite 2)),
         Save \<lparr>countryName = JStr ''an unknown location'', countryCode = JStr ''XX'',
          type = JStr ''redHeart'', latitude = JNum (Finite 1), longitude = JNum (Finite 2),
          message = JStr [], timestamp = 1005\<rparr>,
         Fetch (JNum (Finite 3)) (JNum (Finite 4)),
         Save \<lparr>countryName = JStr ''an unknown location'', countryCode = JStr ''XX'',
          type = JStr ''silverHeart'', latitude = JNum (Finite 3), longitude = JNum (Finite 4),
          message = JStr [], timestamp = 2005\<rparr>]\<rparr>)"
  by (simp add: post_hearts_def destructure_def getCountryFromServerLatLng_def
      getCountry_try_def after_fetch_def fallback_def new_Heart_def with_default_def
      cast_def or_else_def save_def request_def url_throws_def log_call_def Let_def)

lemma not_lower_toUpperCase_char: "\<not> is_lower (toUpperCase_char c)"
proof (cases "is_lower c")
  case True
  then have "(of_char c :: nat) - 32 < 256" and "(of_char c :: nat) - 32 < 97"
    by (auto simp: is_lower_def)
  then have "(of_char (char_of ((of_char c :: nat) - 32)) :: nat) < 97"
    by simp
  with True show ?thesis
    by (simp add: toUpperCase_char_def is_lower_def)
next
  case False
  then show ?thesis by (simp add: toUpperCase_char_def)
qed

lemma no_lower_ascii_upper:
  "list_all is_ascii s \<Longrightarrow> list_all (\<lambda>c. \<not> is_lower c) (toUpperCase tables s)"
  by (simp add: toUpperCase_ascii list_all_iff not_lower_toUpperCase_char)

lemma length_ascii_upper:
  "list_all is_ascii s \<Longrightarrow> length (toUpperCase tables s) = length s"
  by (simp add: toUpperCase_ascii)

lemma no_lower_XX: "list_all (\<lambda>c. \<not> is_lower c) ''XX''"
  by (simp add: is_lower_def)

lemma country_of_code:
  assumes "country_of tables data = Inr g"
  shows "countryCode g = JStr ''XX'' \<or>
         (\<exists>address s. get_prop data ''address'' = Inr address \<and>
            get_prop address ''country_code'' = Inr (JStr s) \<and> s \<noteq> [] \<and>
            countryCode g = JStr (toUpperCase tables s))"
proof (cases "\<not> truthy data \<or> (\<exists>a. get_prop data ''address'' = Inr a \<and> \<not> truthy a)")
  case True
  with assms show ?thesis
    using country_of_no_address [of data tables] by (auto simp: open_sea_def)
next
  case False
  then have d: "truthy data" by simp
  then obtain address where a: "get_prop data ''address'' = Inr address"
    by (cases data) auto
  with False have ta: "truthy address" by simp
  then obtain country where c: "get_prop address ''country'' = Inr country"
    by (cases address) auto
  from ta obtain country_code where k: "get_prop address ''country_code'' = Inr country_code"
    by (cases address) auto
  note e = country_of_address [OF d a ta c k, of tables]
  show ?thesis
  proof (cases "truthy country_code")
    case False
    with e assms show ?thesis by auto
  next
    case True
    show ?thesis
    proof (cases country_code)
      case (JStr s)
      with True e assms a k show ?thesis by auto
    qed (use True e assms in auto)
  qed
qed

lemma getCountry_code:
  assumes "fst (getCountryFromServerLatLng env lat lng w) = Inr g"
  shows "countryCode g = JStr ''XX'' \<or>
         (\<exists>s. reply_country_code env = JStr s \<and> s \<noteq> [] \<and>
            countryCode g = JStr (toUpperCase (unicode_upper env) s))"
proof (cases "getCountry_try env lat lng")
  case (Inl e)
  with assms show ?thesis
    by (auto simp: getCountry_caught fallback_def)
next
  case (Inr g')
  with assms have g: "g' = g"
    by (simp add: getCountry_returned)
  from Inr obtain r data where r: "fetch_result env = Inr r" and j: "json_body r = Inr data"
    and c: "country_of (unicode_upper env) data = Inr g'"
    by (auto simp: getCountry_try_def after_fetch_def split: sum.splits if_splits)
  from country_of_code [OF c] r j g show ?thesis
    by (auto simp: reply_country_code_def)
qed

lemma new_Heart_code:
  assumes "fst (getCountryFromServerLatLng env lat lng w) = Inr g"
  shows "countryCode (new_Heart env ty lat lng msg (countryName g) (countryCode g) ts) =
           countryCode g"
  using getCountry_code [OF assms] by (auto simp: new_Heart_def with_default_def cast_def)

lemma post_hearts_code:
  assumes "post_hearts env b w = (r, w')"
  shows "hearts w' = hearts w \<or>
         (\<exists>h. hearts w' = hearts w @ [h] \<and>
            (countryCode h = JStr ''XX'' \<or>
             (\<exists>s. reply_country_code env = JStr s \<and> s \<noteq> [] \<and>
                countryCode h = JStr (toUpperCase (unicode_upper env) s))))"
  using post_hearts_cases [OF assms]
proof (elim disjE exE conjE)
  fix ty lat lng msg g h
  assume g: "fst (getCountryFromServerLatLng env lat lng w) = Inr g"
    and h: "h = new_Heart env ty lat lng (or_else msg (JStr [])) (countryName g)
                  (countryCode g) (received_at env + int (elapsed env))"
    and w: "hearts w' = hearts w @ [h]"
  from h have "countryCode h = countryCode g"
    using new_Heart_code [OF g] by simp
  with getCountry_code [OF g] w show ?thesis by auto
qed simp_all

lemma two_char_code_new:
  assumes "countryCode h = JStr ''XX'' \<or>
           (\<exists>s. reply_country_code env = JStr s \<and> s \<noteq> [] \<and>
              countryCode h = JStr (toUpperCase (unicode_upper env) s))"
    and "two_char_reply env"
  shows "two_char_code h"
  using assms(1)
proof
  assume "countryCode h = JStr ''XX''"
  then show ?thesis
    using no_lower_XX by (simp add: two_char_code_def)
next
  assume "\<exists>s. reply_country_code env = JStr s \<and> s \<noteq> [] \<and>
              countryCode h = JStr (toUpperCase (unicode_upper env) s)"
  then obtain s where r: "reply_country_code env = JStr s" and s: "s \<noteq> []"
    and c: "countryCode h = JStr (toUpperCase (unicode_upper env) s)"
    by blast
  from r s assms(2) have l: "length s = 2" and a: "list_all is_ascii s"
    by (simp_all add: two_char_reply_def)
  from c l show ?thesis
    using no_lower_ascii_upper [OF a, of "unicode_upper env"]
      length_ascii_upper [OF a, of "unicode_upper env"]
    by (simp add: two_char_code_def)
qed

lemma post_hearts_two_char:
  assumes "post_hearts env b w = (r, w')" and "two_char_reply env"
    and "list_all two_char_code (hearts w)"
  shows "list_all two_char_code (hearts w')"
  using post_hearts_code [OF assms(1)] assms(2,3) two_char_code_new [of _ env]
  by auto

lemma post_all_two_char:
  assumes "post_all reqs w = (rs, w')" and "list_all two_char_reply (map fst reqs)"
    and "list_all two_char_code (hearts w)"
  shows "list_all two_char_code (hearts w')"
  using assms
proof (induction reqs arbitrary: w rs w')
  case Nil
  then show ?case by simp
next
  case (Cons q reqs)
  obtain env b where q: "q = (env, b)" by (cases q)
  obtain r w1 where p: "post_hearts env b w = (r, w1)" by (cases "post_hearts env b w")
  obtain rs1 w2 where a: "post_all reqs w1 = (rs1, w2)" by (cases "post_all reqs w1")
  from Cons.prems q p a have e: "w' = w2" by simp
  from Cons.prems q have t: "two_char_reply env" and ts: "list_all two_char_reply (map fst reqs)"
    by simp_all
  from Cons.IH [OF a ts] post_hearts_two_char [OF p t] Cons.prems(3) e
  show ?case by simp
qed

lemma sharp_s_is_not_ascii: "\<not> list_all is_ascii [char_of (223 :: nat), CHR ''a'']"
  by (simp add: is_ascii_def)

lemma toUpperCase_usa: "toUpperCase tables ''usa'' = ''USA''"
proof -
  have a: "list_all is_ascii ''usa''"
    by (simp add: is_ascii_def)
  have u: "map toUpperCase_char ''usa'' = ''USA''"
    by code_simp
  show ?thesis
    by (simp only: toUpperCase_ascii [OF a] u)
qed

lemma destructure_agree:
  assumes "get_prop b1 ''type'' = get_prop b2 ''type''"
    and "get_prop b1 ''latitude'' = get_prop b2 ''latitude''"
    and "get_prop b1 ''longitude'' = get_prop b2 ''longitude''"
    and "get_prop b1 ''message'' = get_prop b2 ''message''"
  shows "destructure b1 = destructure b2"
  unfolding destructure_def assms by (rule refl)

section \<open>The geocoder answers with a non-success status\<close>

text \<open>
  C1, as amended. When the geocoder answers with a status outside 200 to 299, line 47
  throws inside the \<^verbatim>\<open>try\<close> block, and the \<^verbatim>\<open>catch\<close> of line 58 of the same function
  takes the exception: \<^verbatim>\<open>getCountryFromServerLatLng\<close> returns the pair
  \<^verbatim>\<open>{"an unknown location", "XX"}\<close> to its caller, after the one request it made (no
  retry). Nothing propagates to the caller. (For coordinates from which no URL can be
  built there is no request and no answer; the block throws all the same, and the pair
  returned is the same.)
\<close>

theorem non_success_status_falls_back:
  assumes "fetch_result env = Inr r" and "\<not> ok r"
  shows "(\<exists>e. getCountry_try env lat lng = Inl e) \<and>
         getCountryFromServerLatLng env lat lng w =
           (Inr \<lparr>countryName = JStr ''an unknown location'', countryCode = JStr ''XX''\<rparr>,
            if url_throws lat lng then w else w\<lparr>calls := calls w @ [Fetch lat lng]\<rparr>)"
proof -
  from assms obtain e where e: "getCountry_try env lat lng = Inl e"
    using not_ok_try_throws by blast
  show ?thesis
    using e getCountry_caught [OF e, of w]
    by (auto simp: fallback_def request_made no_request)
qed

theorem non_success_status_falls_back_witness:
  "\<not> ok \<lparr>status = 404, text_body = Inr ''Not Found'', json_body = Inl SyntaxError\<rparr> \<and>
   \<not> url_throws (JNum (Finite 48)) (JNum (Finite 2)) \<and>
   getCountryFromServerLatLng
     \<lparr>fetch_result = Inr \<lparr>status = 404, text_body = Inr ''Not Found'',
                           json_body = Inl SyntaxError\<rparr>,
      received_at = 0, elapsed = 0, save_error = None, find_error = None,
      unicode_upper = no_tables, driver_cast = dropping\<rparr>
     (JNum (Finite 48)) (JNum (Finite 2)) \<lparr>hearts = [], calls = []\<rparr>
   = (Inr \<lparr>countryName = JStr ''an unknown location'', countryCode = JStr ''XX''\<rparr>,
      \<lparr>hearts = [], calls = [Fetch (JNum (Finite 48)) (JNum (Finite 2))]\<rparr>)"
proof -
  have h: "\<not> ok \<lparr>status = 404, text_body = Inr ''Not Found'', json_body = Inl SyntaxError\<rparr>"
    by (simp add: ok_def)
  have u: "\<not> url_throws (JNum (Finite 48)) (JNum (Finite 2))"
    by (simp add: url_throws_def)
  show ?thesis
    using h u non_success_status_falls_back [OF _ h,
        of "\<lparr>fetch_result = Inr \<lparr>status = 404, text_body = Inr ''Not Found'',
                           json_body = Inl SyntaxError\<rparr>,
      received_at = 0, elapsed = 0, save_error = None, find_error = None,
      unicode_upper = no_tables, driver_cast = dropping\<rparr>"
      "JNum (Finite 48)" "JNum (Finite 2)" "\<lparr>hearts = [], calls = []\<rparr>"]
    by simp
qed

text \<open>
  C1 as the specification states it fails: on a 503 the call returns a pair, it does
  not raise.
\<close>

theorem non_success_status_counterexample:
  "getCountryFromServerLatLng
     \<lparr>fetch_result = Inr \<lparr>status = 503, text_body = Inr ''Service Unavailable'',
                           json_body = Inl SyntaxError\<rparr>,
      received_at = 0, elapsed = 0, save_error = None, find_error = None,
      unicode_upper = no_tables, driver_cast = dropping\<rparr>
     (JNum (Finite 1)) (JNum (Finite 2)) \<lparr>hearts = [], calls = []\<rparr>
   = (Inr \<lparr>countryName = JStr ''an unknown location'', countryCode = JStr ''XX''\<rparr>,
      \<lparr>hearts = [], calls = [Fetch (JNum (Finite 1)) (JNum (Finite 2))]\<rparr>)"
  by (simp add: getCountryFromServerLatLng_def getCountry_try_def after_fetch_def ok_def
      fallback_def request_def url_throws_def log_call_def)

section \<open>The request to the geocoder fails\<close>

text \<open>
  C2. Take a creation request whose fields pass the check of line 69, and let the
  \<^verbatim>\<open>try\<close> block of \<^verbatim>\<open>getCountryFromServerLatLng\<close> throw: a rejected \<^verbatim>\<open>fetch\<close>
  (\<open>rejected_fetch_throws\<close>), a body that \<^verbatim>\<open>response.json()\<close> cannot parse
  (\<open>unparsable_body_throws\<close>), or any other exception. Then the function returns
  \<^verbatim>\<open>{"an unknown location", "XX"}\<close> and, the store accepting the document, the handler
  answers 201 with a record that carries exactly these two values, and that record is
  the one added to the collection. Its other fields are those of the request as
  \<^verbatim>\<open>new Heart\<close> casts them: unchanged when they are of the types of the schema, as the
  instance below shows.
\<close>

theorem transport_failure_still_creates:
  assumes "destructure b = Inr (ty, lat, lng, msg)"
    and "\<not> is_undefined lat" and "\<not> is_undefined lng" and "truthy ty"
    and "getCountry_try env lat lng = Inl e"
    and "save_error env = None"
  shows "fst (getCountryFromServerLatLng env lat lng w) =
           Inr \<lparr>countryName = JStr ''an unknown location'', countryCode = JStr ''XX''\<rparr> \<and>
         post_hearts env b w =
           (\<lparr>code = 201,
             body = HeartJson
               \<lparr>countryName = JStr ''an unknown location'', countryCode = JStr ''XX'',
                type = cast env SString ty, latitude = cast env SNumber lat,
                longitude = cast env SNumber lng,
                message = cast env SString (or_else msg (JStr [])),
                timestamp = received_at env + int (elapsed env)\<rparr>\<rparr>,
            \<lparr>hearts = hearts w @
               [\<lparr>countryName = JStr ''an unknown location'', countryCode = JStr ''XX'',
                 type = cast env SString ty, latitude = cast env SNumber lat,
                 longitude = cast env SNumber lng,
                 message = cast env SString (or_else msg (JStr [])),
                 timestamp = received_at env + int (elapsed env)\<rparr>],
             calls = calls w @ (if url_throws lat lng then [] else [Fetch lat lng]) @
               [Save \<lparr>countryName = JStr ''an unknown location'', countryCode = JStr ''XX'',
                 type = cast env SString ty, latitude = cast env SNumber lat,
                 longitude = cast env SNumber lng,
                 message = cast env SString (or_else msg (JStr [])),
                 timestamp = received_at env + int (elapsed env)\<rparr>]\<rparr>)"
proof -
  have g: "getCountryFromServerLatLng env lat lng w = (Inr fallback, request lat lng w)"
    using assms(5) by (rule getCountry_caught)
  show ?thesis
    using post_hearts_valid [OF assms(1-4) g] save_resolves [OF assms(6)] g
    by (simp add: fallback_def new_Heart_fields calls_request hearts_request)
qed

theorem transport_failure_still_creates_witness:
  "destructure (JObj [(''type'', JStr ''redHeart''), (''latitude'', JNum (Finite 48)),
                      (''longitude'', JNum (Finite 2))])
     = Inr (JStr ''redHeart'', JNum (Finite 48), JNum (Finite 2), JUndefined) \<and>
   getCountry_try
     \<lparr>fetch_result = Inl TypeError, received_at = 1000, elapsed = 250,
      save_error = None, find_error = None,
      unicode_upper = no_tables, driver_cast = dropping\<rparr>
     (JNum (Finite 48)) (JNum (Finite 2)) = Inl TypeError \<and>
   post_hearts
     \<lparr>fetch_result = Inl TypeError, received_at = 1000, elapsed = 250,
      save_error = None, find_error = None,
      unicode_upper = no_tables, driver_cast = dropping\<rparr>
     (JObj [(''type'', JStr ''redHeart''), (''latitude'', JNum (Finite 48)),
            (''longitude'', JNum (Finite 2))])
     \<lparr>hearts = [], calls = []\<rparr>
   = (\<lparr>code = 201,
       body = HeartJson
         \<lparr>countryName = JStr ''an unknown location'', countryCode = JStr ''XX'',
          type = JStr ''redHeart'', latitude = JNum (Finite 48), longitude = JNum (Finite 2),
          message = JStr [], timestamp = 1250\<rparr>\<rparr>,
      \<lparr>hearts =
         [\<lparr>countryName = JStr ''an unknown location'', countryCode = JStr ''XX'',
           type = JStr ''redHeart'', latitude = JNum (Finite 48), longitude = JNum (Finite 2),
           message = JStr [], timestamp = 1250\<rparr>],
       calls = [Fetch (JNum (Finite 48)) (JNum (Finite 2)),
         Save \<lparr>countryName = JStr ''an unknown location'', countryCode = JStr ''XX'',
           type = JStr ''redHeart'', latitude = JNum (Finite 48), longitude = JNum (Finite 2),
           message = JStr [], timestamp = 1250\<rparr>]\<rparr>)"
proof -
  have d: "destructure (JObj [(''type'', JStr ''redHeart''), (''latitude'', JNum (Finite 48)),
                      (''longitude'', JNum (Finite 2))])
     = Inr (JStr ''redHeart'', JNum (Finite 48), JNum (Finite 2), JUndefined)"
    by (simp add: destructure_def)
  have t: "getCountry_try
     \<lparr>fetch_result = Inl TypeError, received_at = 1000, elapsed = 250,
      save_error = None, find_error = None,
      unicode_upper = no_tables, driver_cast = dropping\<rparr>
     (JNum (Finite 48)) (JNum (Finite 2)) = Inl TypeError"
    by (simp add: getCountry_try_def after_fetch_def url_throws_def)
  show ?thesis
    using d t transport_failure_still_creates [OF d _ _ _ t, of "\<lparr>hearts = [], calls = []\<rparr>"]
    by (simp add: or_else_def cast_def url_throws_def)
qed

section \<open>The geocoder answers, without a country\<close>

text \<open>
  C3, as amended. Let the request to the geocoder be made and be answered with a success
  status and a body that parses to \<open>data\<close>. When there is no address (\<open>data\<close> or
  \<^verbatim>\<open>data.address\<close> is falsy), the pair returned is exactly \<^verbatim>\<open>{"the open sea", "XX"}\<close>.
  When there is an address whose country is absent, line 53 decides without looking at
  the country: the pair is \<^verbatim>\<open>{"the open sea", "XX"}\<close> when the country code is absent as
  well; it is \<^verbatim>\<open>"the open sea"\<close> with the country code in upper case when the code is a
  non-empty string; and when the code is any other truthy value, \<^verbatim>\<open>toUpperCase\<close> is
  no function of it, the call throws and the pair is \<^verbatim>\<open>{"an unknown location", "XX"}\<close>.
\<close>

theorem absent_country_is_open_sea:
  assumes "\<not> url_throws lat lng"
    and "fetch_result env = Inr r" and "ok r" and "json_body r = Inr data"
  shows "(\<not> truthy data \<longrightarrow>
            fst (getCountryFromServerLatLng env lat lng w) =
              Inr \<lparr>countryName = JStr ''the open sea'', countryCode = JStr ''XX''\<rparr>) \<and>
         (\<forall>address. get_prop data ''address'' = Inr address \<and> \<not> truthy address \<longrightarrow>
            fst (getCountryFromServerLatLng env lat lng w) =
              Inr \<lparr>countryName = JStr ''the open sea'', countryCode = JStr ''XX''\<rparr>) \<and>
         (\<forall>address country country_code.
            truthy data \<and> get_prop data ''address'' = Inr address \<and> truthy address \<and>
            get_prop address ''country'' = Inr country \<and> \<not> truthy country \<and>
            get_prop address ''country_code'' = Inr country_code \<longrightarrow>
            (\<not> truthy country_code \<longrightarrow>
               fst (getCountryFromServerLatLng env lat lng w) =
                 Inr \<lparr>countryName = JStr ''the open sea'', countryCode = JStr ''XX''\<rparr>) \<and>
            (\<forall>s. country_code = JStr s \<and> s \<noteq> [] \<longrightarrow>
               fst (getCountryFromServerLatLng env lat lng w) =
                 Inr \<lparr>countryName = JStr ''the open sea'',
                      countryCode = JStr (toUpperCase (unicode_upper env) s)\<rparr>) \<and>
            (truthy country_code \<and> (\<forall>s. country_code \<noteq> JStr s) \<longrightarrow>
               fst (getCountryFromServerLatLng env lat lng w) =
                 Inr \<lparr>countryName = JStr ''an unknown location'',
                      countryCode = JStr ''XX''\<rparr>))"
proof (intro conjI allI impI)
  assume "\<not> truthy data"
  then have "getCountry_try env lat lng = Inr open_sea"
    using getCountry_parsed [OF assms] country_of_no_address [of data] by simp
  then show "fst (getCountryFromServerLatLng env lat lng w) =
      Inr \<lparr>countryName = JStr ''the open sea'', countryCode = JStr ''XX''\<rparr>"
    by (simp add: getCountry_returned open_sea_def)
next
  fix address
  assume "get_prop data ''address'' = Inr address \<and> \<not> truthy address"
  then have "getCountry_try env lat lng = Inr open_sea"
    using getCountry_parsed [OF assms] country_of_no_address [of data] by auto
  then show "fst (getCountryFromServerLatLng env lat lng w) =
      Inr \<lparr>countryName = JStr ''the open sea'', countryCode = JStr ''XX''\<rparr>"
    by (simp add: getCountry_returned open_sea_def)
next
  fix address country country_code
  assume a: "truthy data \<and> get_prop data ''address'' = Inr address \<and> truthy address \<and>
            get_prop address ''country'' = Inr country \<and> \<not> truthy country \<and>
            get_prop address ''country_code'' = Inr country_code"
  then have c: "getCountry_try env lat lng =
           (if truthy country_code
            then (case call_toUpperCase (unicode_upper env) country_code of
                    Inl e \<Rightarrow> Inl e
                  | Inr c \<Rightarrow> Inr \<lparr>countryName = or_else country (JStr ''the open sea''),
                                 countryCode = c\<rparr>)
            else Inr \<lparr>countryName = or_else country (JStr ''the open sea''),
                     countryCode = JStr ''XX''\<rparr>)"
    using getCountry_parsed [OF assms]
      country_of_address [of data address country country_code "unicode_upper env"]
    by simp
  from a have o: "or_else country (JStr ''the open sea'') = JStr ''the open sea''"
    by (simp add: or_else_falsy)
  {
    assume "\<not> truthy country_code"
    with c o have "getCountry_try env lat lng =
        Inr \<lparr>countryName = JStr ''the open sea'', countryCode = JStr ''XX''\<rparr>"
      by simp
    then show "fst (getCountryFromServerLatLng env lat lng w) =
        Inr \<lparr>countryName = JStr ''the open sea'', countryCode = JStr ''XX''\<rparr>"
      by (simp add: getCountry_returned)
  }
  {
    fix s
    assume "country_code = JStr s \<and> s \<noteq> []"
    with c have "getCountry_try env lat lng =
        Inr \<lparr>countryName = JStr ''the open sea'',
             countryCode = JStr (toUpperCase (unicode_upper env) s)\<rparr>"
      unfolding o by simp
    then show "fst (getCountryFromServerLatLng env lat lng w) =
        Inr \<lparr>countryName = JStr ''the open sea'',
             countryCode = JStr (toUpperCase (unicode_upper env) s)\<rparr>"
      by (simp add: getCountry_returned)
  }
  {
    assume n: "truthy country_code \<and> (\<forall>s. country_code \<noteq> JStr s)"
    then have "call_toUpperCase (unicode_upper env) country_code = Inl TypeError"
      by (cases country_code) simp_all
    with c n have "getCountry_try env lat lng = Inl TypeError"
      by simp
    then show "fst (getCountryFromServerLatLng env lat lng w) =
        Inr \<lparr>countryName = JStr ''an unknown location'', countryCode = JStr ''XX''\<rparr>"
      by (simp add: getCountry_caught fallback_def)
  }
qed

theorem absent_country_is_open_sea_witness:
  "\<not> url_throws (JNum (Finite 0)) (JNum (Finite 0)) \<and>
   ok \<lparr>status = 200, text_body = Inr [],
       json_body = Inr (JObj [(''address'', JObj [])])\<rparr> \<and>
   get_prop (JObj [(''address'', JObj [])]) ''address'' = Inr (JObj []) \<and>
   get_prop (JObj []) ''country'' = Inr JUndefined \<and>
   get_prop (JObj []) ''country_code'' = Inr JUndefined \<and>
   fst (getCountryFromServerLatLng
     \<lparr>fetch_result = Inr \<lparr>status = 200, text_body = Inr [],
                           json_body = Inr (JObj [(''address'', JObj [])])\<rparr>,
      received_at = 0, elapsed = 0, save_error = None, find_error = None,
      unicode_upper = no_tables, driver_cast = dropping\<rparr>
     (JNum (Finite 0)) (JNum (Finite 0)) \<lparr>hearts = [], calls = []\<rparr>)
   = Inr \<lparr>countryName = JStr ''the open sea'', countryCode = JStr ''XX''\<rparr> \<and>
   get_prop (JObj [(''error'', JStr ''Unable to geocode'')]) ''address'' = Inr JUndefined \<and>
   fst (getCountryFromServerLatLng
     \<lparr>fetch_result = Inr \<lparr>status = 200, text_body = Inr [],
          json_body = Inr (JObj [(''error'', JStr ''Unable to geocode'')])\<rparr>,
      received_at = 0, elapsed = 0, save_error = None, find_error = None,
      unicode_upper = no_tables, driver_cast = dropping\<rparr>
     (JNum (Finite 0)) (JNum (Finite 0)) \<lparr>hearts = [], calls = []\<rparr>)
   = Inr \<lparr>countryName = JStr ''the open sea'', countryCode = JStr ''XX''\<rparr> \<and>
   get_prop (JObj [(''address'', JObj [(''country_code'', JNum (Finite 33))])]) ''address''
     = Inr (JObj [(''country_code'', JNum (Finite 33))]) \<and>
   get_prop (JObj [(''country_code'', JNum (Finite 33))]) ''country_code''
     = Inr (JNum (Finite 33)) \<and>
   fst (getCountryFromServerLatLng
     \<lparr>fetch_result = Inr \<lparr>status = 200, text_body = Inr [],
          json_body = Inr (JObj [(''address'', JObj [(''country_code'', JNum (Finite 33))])])\<rparr>,
      received_at = 0, elapsed = 0, save_error = None, find_error = None,
      unicode_upper = no_tables, driver_cast = dropping\<rparr>
     (JNum (Finite 0)) (JNum (Finite 0)) \<lparr>hearts = [], calls = []\<rparr>)
   = Inr \<lparr>countryName = JStr ''an unknown location'', countryCode = JStr ''XX''\<rparr>"
proof -
  have u: "\<not> url_throws (JNum (Finite 0)) (JNum (Finite 0))"
    by (simp add: url_throws_def)
  have k: "ok \<lparr>status = 200, text_body = Inr [],
       json_body = Inr (JObj [(''address'', JObj [])])\<rparr>"
    by (simp add: ok_def)
  have k2: "ok \<lparr>status = 200, text_body = Inr [],
       json_body = Inr (JObj [(''error'', JStr ''Unable to geocode'')])\<rparr>"
    by (simp add: ok_def)
  have k3: "ok \<lparr>status = 200, text_body = Inr [],
       json_body = Inr (JObj [(''address'', JObj [(''country_code'', JNum (Finite 33))])])\<rparr>"
    by (simp add: ok_def)
  show ?thesis
    using u k absent_country_is_open_sea [OF u _ k,
        of "\<lparr>fetch_result = Inr \<lparr>status = 200, text_body = Inr [],
                           json_body = Inr (JObj [(''address'', JObj [])])\<rparr>,
      received_at = 0, elapsed = 0, save_error = None, find_error = None,
      unicode_upper = no_tables, driver_cast = dropping\<rparr>"
        "JObj [(''address'', JObj [])]" "\<lparr>hearts = [], calls = []\<rparr>"]
      absent_country_is_open_sea [OF u _ k2,
        of "\<lparr>fetch_result = Inr \<lparr>status = 200, text_body = Inr [],
          json_body = Inr (JObj [(''error'', JStr ''Unable to geocode'')])\<rparr>,
      received_at = 0, elapsed = 0, save_error = None, find_error = None,
      unicode_upper = no_tables, driver_cast = dropping\<rparr>"
        "JObj [(''error'', JStr ''Unable to geocode'')]" "\<lparr>hearts = [], calls = []\<rparr>"]
      absent_country_is_open_sea [OF u _ k3,
        of "\<lparr>fetch_result = Inr \<lparr>status = 200, text_body = Inr [],
          json_body = Inr (JObj [(''address'', JObj [(''country_code'', JNum (Finite 33))])])\<rparr>,
      received_at = 0, elapsed = 0, save_error = None, find_error = None,
      unicode_upper = no_tables, driver_cast = dropping\<rparr>"
        "JObj [(''address'', JObj [(''country_code'', JNum (Finite 33))])]"
        "\<lparr>hearts = [], calls = []\<rparr>"]
    by simp
qed

text \<open>
  C3 as the specification states it fails on an address that has a country code and no
  country: the code returned is \<^verbatim>\<open>"FR"\<close>, not \<^verbatim>\<open>"XX"\<close>.
\<close>

theorem absent_country_counterexample:
  "fst (getCountryFromServerLatLng
     \<lparr>fetch_result = Inr \<lparr>status = 200, text_body = Inr [],
          json_body = Inr (JObj [(''address'', JObj [(''country_code'', JStr ''fr'')])])\<rparr>,
      received_at = 0, elapsed = 0, save_error = None, find_error = None,
      unicode_upper = no_tables, driver_cast = dropping\<rparr>
     (JNum (Finite 48)) (JNum (Finite 2)) \<lparr>hearts = [], calls = []\<rparr>)
   = Inr \<lparr>countryName = JStr ''the open sea'', countryCode = JStr ''FR''\<rparr>"
  by (simp add: getCountryFromServerLatLng_def getCountry_try_def after_fetch_def ok_def
      country_of_def or_else_def toUpperCase_fr url_throws_def)

section \<open>The geocoder answers with a country\<close>

text \<open>
  C4, as amended. Let the request to the geocoder be made and be answered with a success
  status and an address. The name returned is the country of the address as it is (a
  country that is the empty string is falsy on line 52, and gives \<^verbatim>\<open>"the open sea"\<close>),
  and the code returned is the country code in upper case, when the country code is a
  non-empty string; for a code of ASCII characters, upper case means that the letters
  a to z are replaced by A to Z and nothing else changes, and for any other code it is
  what the Unicode tables of the runtime give. When the country code is
  absent the code returned is \<^verbatim>\<open>"XX"\<close> and the name is kept. When the country code is
  any other truthy value (a number, say), the call of \<^verbatim>\<open>toUpperCase\<close> throws and the
  pair returned is \<^verbatim>\<open>{"an unknown location", "XX"}\<close>: the name is lost.
\<close>

theorem present_country_is_returned:
  assumes "\<not> url_throws lat lng"
    and "fetch_result env = Inr r" and "ok r" and "json_body r = Inr data"
    and "truthy data" and "get_prop data ''address'' = Inr address" and "truthy address"
    and "get_prop address ''country'' = Inr country"
    and "get_prop address ''country_code'' = Inr country_code"
  shows "(\<forall>s. country_code = JStr s \<and> s \<noteq> [] \<longrightarrow>
            fst (getCountryFromServerLatLng env lat lng w) =
              Inr \<lparr>countryName = (if truthy country then country else JStr ''the open sea''),
                   countryCode = JStr (toUpperCase (unicode_upper env) s)\<rparr> \<and>
            toUpperCase (unicode_upper env) s =
              (if list_all (\<lambda>c. (of_char c :: nat) < 128) s
               then map (\<lambda>c. if 97 \<le> (of_char c :: nat) \<and> (of_char c :: nat) \<le> 122
                             then char_of ((of_char c :: nat) - 32) else c) s
               else unicode_upper env s)) \<and>
         (\<not> truthy country_code \<longrightarrow>
            fst (getCountryFromServerLatLng env lat lng w) =
              Inr \<lparr>countryName = (if truthy country then country else JStr ''the open sea''),
                   countryCode = JStr ''XX''\<rparr>) \<and>
         (truthy country_code \<and> (\<forall>s. country_code \<noteq> JStr s) \<longrightarrow>
            fst (getCountryFromServerLatLng env lat lng w) =
              Inr \<lparr>countryName = JStr ''an unknown location'', countryCode = JStr ''XX''\<rparr>)"
proof -
  have o: "or_else country (JStr ''the open sea'') =
      (if truthy country then country else JStr ''the open sea'')"
    by (simp add: or_else_def)
  have c: "getCountry_try env lat lng =
           (if truthy country_code
            then (case call_toUpperCase (unicode_upper env) country_code of
                    Inl e \<Rightarrow> Inl e
                  | Inr c \<Rightarrow>
                      Inr \<lparr>countryName =
                             (if truthy country then country else JStr ''the open sea''),
                           countryCode = c\<rparr>)
            else Inr \<lparr>countryName =
                        (if truthy country then country else JStr ''the open sea''),
                      countryCode = JStr ''XX''\<rparr>)"
    using getCountry_parsed [OF assms(1-4)] country_of_address [OF assms(5-9)]
    unfolding o by simp
  show ?thesis
  proof (intro conjI allI impI)
    fix s
    assume "country_code = JStr s \<and> s \<noteq> []"
    with c have "getCountry_try env lat lng =
        Inr \<lparr>countryName = (if truthy country then country else JStr ''the open sea''),
             countryCode = JStr (toUpperCase (unicode_upper env) s)\<rparr>"
      by simp
    then show "fst (getCountryFromServerLatLng env lat lng w) =
        Inr \<lparr>countryName = (if truthy country then country else JStr ''the open sea''),
             countryCode = JStr (toUpperCase (unicode_upper env) s)\<rparr>"
      by (simp add: getCountry_returned)
  next
    fix s
    show "toUpperCase (unicode_upper env) s =
        (if list_all (\<lambda>c. (of_char c :: nat) < 128) s
         then map (\<lambda>c. if 97 \<le> (of_char c :: nat) \<and> (of_char c :: nat) \<le> 122
                       then char_of ((of_char c :: nat) - 32) else c) s
         else unicode_upper env s)"
      by (simp add: toUpperCase_def list_all_iff is_ascii_def toUpperCase_char_def
          is_lower_def)
  next
    assume "\<not> truthy country_code"
    with c have "getCountry_try env lat lng =
        Inr \<lparr>countryName = (if truthy country then country else JStr ''the open sea''),
             countryCode = JStr ''XX''\<rparr>"
      by simp
    then show "fst (getCountryFromServerLatLng env lat lng w) =
        Inr \<lparr>countryName = (if truthy country then country else JStr ''the open sea''),
             countryCode = JStr ''XX''\<rparr>"
      by (simp add: getCountry_returned)
  next
    assume n: "truthy country_code \<and> (\<forall>s. country_code \<noteq> JStr s)"
    then have "call_toUpperCase (unicode_upper env) country_code = Inl TypeError"
      by (cases country_code) simp_all
    with c n have "getCountry_try env lat lng = Inl TypeError"
      by simp
    then show "fst (getCountryFromServerLatLng env lat lng w) =
        Inr \<lparr>countryName = JStr ''an unknown location'', countryCode = JStr ''XX''\<rparr>"
      by (simp add: getCountry_caught fallback_def)
  qed
qed

theorem present_country_is_returned_witness:
  "\<not> url_throws (JNum (Finite 48)) (JNum (Finite 2)) \<and>
   ok \<lparr>status = 200, text_body = Inr [],
       json_body = Inr (JObj [(''address'',
         JObj [(''country'', JStr ''France''), (''country_code'', JStr ''fr'')])])\<rparr> \<and>
   get_prop (JObj [(''address'',
         JObj [(''country'', JStr ''France''), (''country_code'', JStr ''fr'')])]) ''address''
     = Inr (JObj [(''country'', JStr ''France''), (''country_code'', JStr ''fr'')]) \<and>
   get_prop (JObj [(''country'', JStr ''France''), (''country_code'', JStr ''fr'')]) ''country''
     = Inr (JStr ''France'') \<and>
   get_prop (JObj [(''country'', JStr ''France''), (''country_code'', JStr ''fr'')])
     ''country_code'' = Inr (JStr ''fr'') \<and>
   fst (getCountryFromServerLatLng
     \<lparr>fetch_result = Inr \<lparr>status = 200, text_body = Inr [],
        json_body = Inr (JObj [(''address'',
          JObj [(''country'', JStr ''France''), (''country_code'', JStr ''fr'')])])\<rparr>,
      received_at = 0, elapsed = 0, save_error = None, find_error = None,
      unicode_upper = no_tables, driver_cast = dropping\<rparr>
     (JNum (Finite 48)) (JNum (Finite 2)) \<lparr>hearts = [], calls = []\<rparr>)
   = Inr \<lparr>countryName = JStr ''France'', countryCode = JStr ''FR''\<rparr> \<and>
   hearts (snd (post_hearts
     \<lparr>fetch_result = Inr \<lparr>status = 200, text_body = Inr [],
        json_body = Inr (JObj [(''address'',
          JObj [(''country'', JStr ''France''), (''country_code'', JStr ''fr'')])])\<rparr>,
      received_at = 1000, elapsed = 250, save_error = None, find_error = None,
      unicode_upper = no_tables, driver_cast = dropping\<rparr>
     (JObj [(''type'', JStr ''redHeart''), (''latitude'', JNum (Finite 48)),
            (''longitude'', JNum (Finite 2))])
     \<lparr>hearts = [], calls = []\<rparr>))
   = [\<lparr>countryName = JStr ''France'', countryCode = JStr ''FR'',
       type = JStr ''redHeart'', latitude = JNum (Finite 48),
       longitude = JNum (Finite 2), message = JStr [], timestamp = 1250\<rparr>]"
proof -
  have u: "\<not> url_throws (JNum (Finite 48)) (JNum (Finite 2))"
    by (simp add: url_throws_def)
  have k: "ok \<lparr>status = 200, text_body = Inr [],
       json_body = Inr (JObj [(''address'',
         JObj [(''country'', JStr ''France''), (''country_code'', JStr ''fr'')])])\<rparr>"
    by (simp add: ok_def)
  have a: "get_prop (JObj [(''address'',
         JObj [(''country'', JStr ''France''), (''country_code'', JStr ''fr'')])]) ''address''
     = Inr (JObj [(''country'', JStr ''France''), (''country_code'', JStr ''fr'')])"
    by simp
  have c: "get_prop (JObj [(''country'', JStr ''France''), (''country_code'', JStr ''fr'')])
      ''country'' = Inr (JStr ''France'')"
    by simp
  have cc: "get_prop (JObj [(''country'', JStr ''France''), (''country_code'', JStr ''fr'')])
     ''country_code'' = Inr (JStr ''fr'')"
    by simp
  show ?thesis
    using u k a c cc present_country_is_returned [OF u _ k _ _ a _ c cc,
        of "\<lparr>fetch_result = Inr \<lparr>status = 200, text_body = Inr [],
        json_body = Inr (JObj [(''address'',
          JObj [(''country'', JStr ''France''), (''country_code'', JStr ''fr'')])])\<rparr>,
      received_at = 0, elapsed = 0, save_error = None, find_error = None,
      unicode_upper = no_tables, driver_cast = dropping\<rparr>"
        "\<lparr>hearts = [], calls = []\<rparr>"]
    by (simp add: toUpperCase_fr france_is_stored char_of_F char_of_R)
qed

text \<open>
  C4 as the specification states it fails on an address with the country France and the
  country code 33, a number: the name is not kept.
\<close>

theorem present_country_counterexample:
  "fst (getCountryFromServerLatLng
     \<lparr>fetch_result = Inr \<lparr>status = 200, text_body = Inr [],
        json_body = Inr (JObj [(''address'',
          JObj [(''country'', JStr ''France''), (''country_code'', JNum (Finite 33))])])\<rparr>,
      received_at = 0, elapsed = 0, save_error = None, find_error = None,
      unicode_upper = no_tables, driver_cast = dropping\<rparr>
     (JNum (Finite 48)) (JNum (Finite 2)) \<lparr>hearts = [], calls = []\<rparr>)
   = Inr \<lparr>countryName = JStr ''an unknown location'', countryCode = JStr ''XX''\<rparr>"
  by (simp add: getCountryFromServerLatLng_def getCountry_try_def after_fetch_def ok_def
      country_of_def or_else_def url_throws_def fallback_def)

section \<open>Validation of a creation request\<close>

text \<open>
  C5. A creation request whose body is an object without \<^verbatim>\<open>type\<close>, without \<^verbatim>\<open>latitude\<close>
  or without \<^verbatim>\<open>longitude\<close> is answered with status 400 and the body
  \<^verbatim>\<open>{error: "Missing required fields: type, latitude, longitude"}\<close>. The world is left
  as it was: no document is added to the collection, and neither the geocoder nor the
  store is called.
\<close>

theorem missing_field_is_rejected:
  assumes "map_of fs ''type'' = None \<or> map_of fs ''latitude'' = None \<or>
           map_of fs ''longitude'' = None"
  shows "post_hearts env (JObj fs) w =
           (\<lparr>code = 400,
             body = ErrorJson ''Missing required fields: type, latitude, longitude''\<rparr>, w)"
proof -
  obtain ty lat lng msg where d: "destructure (JObj fs) = Inr (ty, lat, lng, msg)"
    and ty: "ty = (case map_of fs ''type'' of None \<Rightarrow> JUndefined | Some v \<Rightarrow> v)"
    and lat: "lat = (case map_of fs ''latitude'' of None \<Rightarrow> JUndefined | Some v \<Rightarrow> v)"
    and lng: "lng = (case map_of fs ''longitude'' of None \<Rightarrow> JUndefined | Some v \<Rightarrow> v)"
    by (simp add: destructure_object)
  from assms have "is_undefined lat \<or> is_undefined lng \<or> \<not> truthy ty"
    unfolding ty lat lng by auto
  with d show ?thesis
    using post_hearts_invalid [of "JObj fs" ty lat lng msg env w] by (simp add: missing_fields_def)
qed

theorem missing_field_is_rejected_witness:
  "map_of [(''type'', JStr ''redHeart''), (''longitude'', JNum (Finite 2))] ''latitude'' = None \<and>
   post_hearts
     \<lparr>fetch_result = Inl TypeError, received_at = 0, elapsed = 0,
      save_error = None, find_error = None,
      unicode_upper = no_tables, driver_cast = dropping\<rparr>
     (JObj [(''type'', JStr ''redHeart''), (''longitude'', JNum (Finite 2))])
     \<lparr>hearts = [], calls = []\<rparr>
   = (\<lparr>code = 400,
       body = ErrorJson ''Missing required fields: type, latitude, longitude''\<rparr>,
      \<lparr>hearts = [], calls = []\<rparr>)"
proof -
  have m: "map_of [(''type'', JStr ''redHeart''), (''longitude'', JNum (Finite 2))] ''latitude''
      = None"
    by simp
  show ?thesis
    using m missing_field_is_rejected
      [of "[(''type'', JStr ''redHeart''), (''longitude'', JNum (Finite 2))]"
        "\<lparr>fetch_result = Inl TypeError, received_at = 0, elapsed = 0,
          save_error = None, find_error = None,
          unicode_upper = no_tables, driver_cast = dropping\<rparr>" "\<lparr>hearts = [], calls = []\<rparr>"]
    by simp
qed

text \<open>
  C6, as amended. The check of line 69 tests \<^verbatim>\<open>latitude\<close> and \<^verbatim>\<open>longitude\<close> against
  \<^verbatim>\<open>undefined\<close> only (no test of type, range or \<^verbatim>\<open>null\<close>) and tests \<^verbatim>\<open>type\<close> for
  truthiness: the request is answered with 400 exactly when \<^verbatim>\<open>latitude\<close> or
  \<^verbatim>\<open>longitude\<close> is \<^verbatim>\<open>undefined\<close> or \<^verbatim>\<open>type\<close> is falsy. A \<^verbatim>\<open>type\<close> that is the empty
  string is falsy, so that request is rejected; a truthy \<^verbatim>\<open>type\<close> passes whatever its
  value.
\<close>

theorem rejected_iff_undefined_or_falsy:
  assumes "destructure b = Inr (ty, lat, lng, msg)"
  shows "(code (fst (post_hearts env b w)) = 400) =
           (is_undefined lat \<or> is_undefined lng \<or> \<not> truthy ty)"
proof (cases "is_undefined lat \<or> is_undefined lng \<or> \<not> truthy ty")
  case True
  with assms show ?thesis
    using post_hearts_invalid [of b ty lat lng msg env w] by (simp add: missing_fields_def)
next
  case False
  obtain g where g: "getCountryFromServerLatLng env lat lng w = (Inr g, request lat lng w)"
    using getCountry_never_throws by blast
  from False assms show ?thesis
    using post_hearts_valid [OF assms _ _ _ g] save_code by simp
qed

theorem rejected_iff_undefined_or_falsy_witness:
  "destructure (JObj [(''type'', JStr ''blueHeart''), (''latitude'', JStr ''north''),
                      (''longitude'', JNum (Finite 1000))])
     = Inr (JStr ''blueHeart'', JStr ''north'', JNum (Finite 1000), JUndefined) \<and>
   fst (post_hearts
     \<lparr>fetch_result = Inl TypeError, received_at = 0, elapsed = 0,
      save_error = Some (Error ''Heart validation failed''), find_error = None,
      unicode_upper = no_tables, driver_cast = dropping\<rparr>
     (JObj [(''type'', JStr ''blueHeart''), (''latitude'', JStr ''north''),
            (''longitude'', JNum (Finite 1000))])
     \<lparr>hearts = [], calls = []\<rparr>)
   = \<lparr>code = 500, body = ErrorJson ''Failed to create heart''\<rparr>"
proof -
  have d: "destructure (JObj [(''type'', JStr ''blueHeart''), (''latitude'', JStr ''north''),
                      (''longitude'', JNum (Finite 1000))])
     = Inr (JStr ''blueHeart'', JStr ''north'', JNum (Finite 1000), JUndefined)"
    by (simp add: destructure_def)
  have v: "fst (post_hearts
     \<lparr>fetch_result = Inl TypeError, received_at = 0, elapsed = 0,
      save_error = Some (Error ''Heart validation failed''), find_error = None,
      unicode_upper = no_tables, driver_cast = dropping\<rparr>
     (JObj [(''type'', JStr ''blueHeart''), (''latitude'', JStr ''north''),
            (''longitude'', JNum (Finite 1000))])
     \<lparr>hearts = [], calls = []\<rparr>)
   = \<lparr>code = 500, body = ErrorJson ''Failed to create heart''\<rparr>"
    by (simp add: post_hearts_def destructure_def getCountryFromServerLatLng_def
      getCountry_try_def after_fetch_def url_throws_def save_def Let_def
      failed_to_create_def)
  have "(code (fst (post_hearts
     \<lparr>fetch_result = Inl TypeError, received_at = 0, elapsed = 0,
      save_error = Some (Error ''Heart validation failed''), find_error = None,
      unicode_upper = no_tables, driver_cast = dropping\<rparr>
     (JObj [(''type'', JStr ''blueHeart''), (''latitude'', JStr ''north''),
            (''longitude'', JNum (Finite 1000))])
     \<lparr>hearts = [], calls = []\<rparr>)) = 400) = False"
    using rejected_iff_undefined_or_falsy [OF d,
        of "\<lparr>fetch_result = Inl TypeError, received_at = 0, elapsed = 0,
          save_error = Some (Error ''Heart validation failed''), find_error = None,
          unicode_upper = no_tables, driver_cast = dropping\<rparr>"
          "\<lparr>hearts = [], calls = []\<rparr>"]
    by simp
  with d v show ?thesis by simp
qed

text \<open>
  C6 as the specification states it fails: with \<^verbatim>\<open>type\<close> the empty string and both
  coordinates defined, the answer is 400.
\<close>

theorem empty_type_counterexample:
  "post_hearts
     \<lparr>fetch_result = Inl TypeError, received_at = 0, elapsed = 0,
      save_error = None, find_error = None,
      unicode_upper = no_tables, driver_cast = dropping\<rparr>
     (JObj [(''type'', JStr []), (''latitude'', JNum (Finite 48)),
            (''longitude'', JNum (Finite 2))])
     \<lparr>hearts = [], calls = []\<rparr>
   = (\<lparr>code = 400,
       body = ErrorJson ''Missing required fields: type, latitude, longitude''\<rparr>,
      \<lparr>hearts = [], calls = []\<rparr>)"
  by (simp add: post_hearts_def destructure_def missing_fields_def)

section \<open>Listing the markers\<close>

text \<open>
  C7. When the store answers, \<^verbatim>\<open>GET /api/hearts\<close> replies 200 with all the documents
  of the collection, each as often as it is stored, in an order in which no timestamp is
  greater than one before it. After a run of creation requests on an empty collection
  the list has as many records as requests were answered with 201. When the store
  fails, the reply is 500 with the body \<^verbatim>\<open>{error: "Failed to fetch hearts"}\<close>.
\<close>

theorem list_markers:
  "(find_error env = None \<longrightarrow>
      (\<exists>hs. get_hearts env w = (\<lparr>code = 200, body = HeartsJson hs\<rparr>, w\<lparr>calls := calls w @ [Find]\<rparr>) \<and>
            mset hs = mset (hearts w) \<and>
            sorted_wrt (\<lambda>a b. timestamp b \<le> timestamp a) hs)) \<and>
   (\<forall>e. find_error env = Some e \<longrightarrow>
      get_hearts env w =
        (\<lparr>code = 500, body = ErrorJson ''Failed to fetch hearts''\<rparr>, w\<lparr>calls := calls w @ [Find]\<rparr>)) \<and>
   (\<forall>reqs rs w'. find_error env = None \<and> hearts w = [] \<and> post_all reqs w = (rs, w') \<longrightarrow>
      (\<exists>hs. fst (get_hearts env w') = \<lparr>code = 200, body = HeartsJson hs\<rparr> \<and>
            length hs = created rs \<and>
            sorted_wrt (\<lambda>a b. timestamp b \<le> timestamp a) hs))"
proof (intro conjI allI impI)
  assume "find_error env = None"
  then show "\<exists>hs. get_hearts env w = (\<lparr>code = 200, body = HeartsJson hs\<rparr>, w\<lparr>calls := calls w @ [Find]\<rparr>) \<and>
            mset hs = mset (hearts w) \<and>
            sorted_wrt (\<lambda>a b. timestamp b \<le> timestamp a) hs"
    by (simp add: get_hearts_def find_sorted_def log_call_def sorted_desc)
next
  fix e
  assume "find_error env = Some e"
  then show "get_hearts env w =
        (\<lparr>code = 500, body = ErrorJson ''Failed to fetch hearts''\<rparr>, w\<lparr>calls := calls w @ [Find]\<rparr>)"
    by (simp add: get_hearts_def find_sorted_def log_call_def)
next
  fix reqs rs w'
  assume a: "find_error env = None \<and> hearts w = [] \<and> post_all reqs w = (rs, w')"
  then have "length (hearts w') = created rs"
    using post_all_length [of reqs w rs w'] by simp
  with a show "\<exists>hs. fst (get_hearts env w') = \<lparr>code = 200, body = HeartsJson hs\<rparr> \<and>
            length hs = created rs \<and>
            sorted_wrt (\<lambda>a b. timestamp b \<le> timestamp a) hs"
    by (simp add: get_hearts_def find_sorted_def sorted_desc)
qed

theorem list_markers_witness:
  "hearts \<lparr>hearts = [], calls = []\<rparr> = [] \<and>
   fst (get_hearts
     \<lparr>fetch_result = Inl TypeError, received_at = 3000, elapsed = 0,
      save_error = None, find_error = None,
      unicode_upper = no_tables, driver_cast = dropping\<rparr>
     (snd (post_all
     [(\<lparr>fetch_result = Inl TypeError, received_at = 1000, elapsed = 5,
        save_error = None, find_error = None,
        unicode_upper = no_tables, driver_cast = dropping\<rparr>,
       JObj [(''type'', JStr ''redHeart''), (''latitude'', JNum (Finite 1)),
             (''longitude'', JNum (Finite 2))]),
      (\<lparr>fetch_result = Inl TypeError, received_at = 2000, elapsed = 5,
        save_error = None, find_error = None,
        unicode_upper = no_tables, driver_cast = dropping\<rparr>,
       JObj [(''type'', JStr ''silverHeart''), (''latitude'', JNum (Finite 3)),
             (''longitude'', JNum (Finite 4))])]
     \<lparr>hearts = [], calls = []\<rparr>)))
   = \<lparr>code = 200, body = HeartsJson
        [\<lparr>countryName = JStr ''an unknown location'', countryCode = JStr ''XX'',
          type = JStr ''silverHeart'', latitude = JNum (Finite 3), longitude = JNum (Finite 4),
          message = JStr [], timestamp = 2005\<rparr>,
         \<lparr>countryName = JStr ''an unknown location'', countryCode = JStr ''XX'',
          type = JStr ''redHeart'', latitude = JNum (Finite 1), longitude = JNum (Finite 2),
          message = JStr [], timestamp = 1005\<rparr>]\<rparr> \<and>
   get_hearts
     \<lparr>fetch_result = Inl TypeError, received_at = 3000, elapsed = 0,
      save_error = None, find_error = Some StoreError,
      unicode_upper = no_tables, driver_cast = dropping\<rparr>
     \<lparr>hearts = [], calls = []\<rparr>
   = (\<lparr>code = 500, body = ErrorJson ''Failed to fetch hearts''\<rparr>,
      \<lparr>hearts = [], calls = [Find]\<rparr>)"
  using list_markers [of "\<lparr>fetch_result = Inl TypeError, received_at = 3000, elapsed = 0,
      save_error = None, find_error = None,
      unicode_upper = no_tables, driver_cast = dropping\<rparr>" "snd (post_all
     [(\<lparr>fetch_result = Inl TypeError, received_at = 1000, elapsed = 5,
        save_error = None, find_error = None,
        unicode_upper = no_tables, driver_cast = dropping\<rparr>,
       JObj [(''type'', JStr ''redHeart''), (''latitude'', JNum (Finite 1)),
             (''longitude'', JNum (Finite 2))]),
      (\<lparr>fetch_result = Inl TypeError, received_at = 2000, elapsed = 5,
        save_error = None, find_error = None,
        unicode_upper = no_tables, driver_cast = dropping\<rparr>,
       JObj [(''type'', JStr ''silverHeart''), (''latitude'', JNum (Finite 3)),
             (''longitude'', JNum (Finite 4))])]
     \<lparr>hearts = [], calls = []\<rparr>)"]
    list_markers [of "\<lparr>fetch_result = Inl TypeError, received_at = 3000, elapsed = 0,
      save_error = None, find_error = Some StoreError,
      unicode_upper = no_tables, driver_cast = dropping\<rparr>" "\<lparr>hearts = [], calls = []\<rparr>"]
  unfolding two_posts by (simp add: get_hearts_def find_sorted_def log_call_def)

section \<open>The country code of a stored marker\<close>

text \<open>
  C8, as amended. The country code of a marker the handler stores is \<^verbatim>\<open>"XX"\<close> or the
  country code of the geocoder's reply as \<^verbatim>\<open>toUpperCase\<close> returns it; the handler does
  not look at its length. Over any run of creation requests, every stored marker has a
  two-character code without a lower-case letter as long as every country code the
  geocoder sends as a non-empty string has two characters, both ASCII. It does not hold
  whatever the geocoder sends: a code of another length is stored at that length, and
  the upper case of a code that is not ASCII may be longer than the code.
\<close>

theorem country_code_invariant:
  assumes "post_all reqs w = (rs, w')"
  shows "(list_all two_char_reply (map fst reqs) \<and> list_all two_char_code (hearts w) \<longrightarrow>
            list_all two_char_code (hearts w')) \<and>
         (\<forall>env b r w1. post_hearts env b w = (r, w1) \<longrightarrow>
            hearts w1 = hearts w \<or>
            (\<exists>h. hearts w1 = hearts w @ [h] \<and>
               (countryCode h = JStr ''XX'' \<or>
                (\<exists>s. reply_country_code env = JStr s \<and> s \<noteq> [] \<and>
                   countryCode h = JStr (toUpperCase (unicode_upper env) s)))))"
proof (intro conjI allI impI)
  assume "list_all two_char_reply (map fst reqs) \<and> list_all two_char_code (hearts w)"
  then show "list_all two_char_code (hearts w')"
    using post_all_two_char [OF assms] by simp
next
  fix env b r w1
  assume "post_hearts env b w = (r, w1)"
  then show "hearts w1 = hearts w \<or>
            (\<exists>h. hearts w1 = hearts w @ [h] \<and>
               (countryCode h = JStr ''XX'' \<or>
                (\<exists>s. reply_country_code env = JStr s \<and> s \<noteq> [] \<and>
                   countryCode h = JStr (toUpperCase (unicode_upper env) s))))"
    by (rule post_hearts_code)
qed

theorem country_code_invariant_witness:
  "list_all two_char_reply (map fst
     [(\<lparr>fetch_result = Inr \<lparr>status = 200, text_body = Inr [],
          json_body = Inr (JObj [(''address'',
            JObj [(''country'', JStr ''France''), (''country_code'', JStr ''fr'')])])\<rparr>,
        received_at = 1000, elapsed = 250, save_error = None, find_error = None,
        unicode_upper = no_tables, driver_cast = dropping\<rparr>,
       JObj [(''type'', JStr ''redHeart''), (''latitude'', JNum (Finite 48)),
             (''longitude'', JNum (Finite 2))])]) \<and>
   list_all two_char_code (hearts \<lparr>hearts = [], calls = []\<rparr>) \<and>
   list_all two_char_code (hearts (snd (post_all
     [(\<lparr>fetch_result = Inr \<lparr>status = 200, text_body = Inr [],
          json_body = Inr (JObj [(''address'',
            JObj [(''country'', JStr ''France''), (''country_code'', JStr ''fr'')])])\<rparr>,
        received_at = 1000, elapsed = 250, save_error = None, find_error = None,
        unicode_upper = no_tables, driver_cast = dropping\<rparr>,
       JObj [(''type'', JStr ''redHeart''), (''latitude'', JNum (Finite 48)),
             (''longitude'', JNum (Finite 2))])]
     \<lparr>hearts = [], calls = []\<rparr>)))"
proof -
  have r: "two_char_reply
      \<lparr>fetch_result = Inr \<lparr>status = 200, text_body = Inr [],
          json_body = Inr (JObj [(''address'',
            JObj [(''country'', JStr ''France''), (''country_code'', JStr ''fr'')])])\<rparr>,
        received_at = 1000, elapsed = 250, save_error = None, find_error = None,
        unicode_upper = no_tables, driver_cast = dropping\<rparr>"
    by (simp add: two_char_reply_def reply_country_code_def is_ascii_def)
  have p: "post_all
     [(\<lparr>fetch_result = Inr \<lparr>status = 200, text_body = Inr [],
          json_body = Inr (JObj [(''address'',
            JObj [(''country'', JStr ''France''), (''country_code'', JStr ''fr'')])])\<rparr>,
        received_at = 1000, elapsed = 250, save_error = None, find_error = None,
        unicode_upper = no_tables, driver_cast = dropping\<rparr>,
       JObj [(''type'', JStr ''redHeart''), (''latitude'', JNum (Finite 48)),
             (''longitude'', JNum (Finite 2))])]
     \<lparr>hearts = [], calls = []\<rparr>
    = (fst (post_all
     [(\<lparr>fetch_result = Inr \<lparr>status = 200, text_body = Inr [],
          json_body = Inr (JObj [(''address'',
            JObj [(''country'', JStr ''France''), (''country_code'', JStr ''fr'')])])\<rparr>,
        received_at = 1000, elapsed = 250, save_error = None, find_error = None,
        unicode_upper = no_tables, driver_cast = dropping\<rparr>,
       JObj [(''type'', JStr ''redHeart''), (''latitude'', JNum (Finite 48)),
             (''longitude'', JNum (Finite 2))])]
     \<lparr>hearts = [], calls = []\<rparr>), snd (post_all
     [(\<lparr>fetch_result = Inr \<lparr>status = 200, text_body = Inr [],
          json_body = Inr (JObj [(''address'',
            JObj [(''country'', JStr ''France''), (''country_code'', JStr ''fr'')])])\<rparr>,
        received_at = 1000, elapsed = 250, save_error = None, find_error = None,
        unicode_upper = no_tables, driver_cast = dropping\<rparr>,
       JObj [(''type'', JStr ''redHeart''), (''latitude'', JNum (Finite 48)),
             (''longitude'', JNum (Finite 2))])]
     \<lparr>hearts = [], calls = []\<rparr>))"
    by (rule prod.collapse [symmetric])
  show ?thesis
    using r country_code_invariant [OF p] by (simp del: post_all.simps)
qed

text \<open>
  C8 as the specification states it fails: when the geocoder sends the country code
  \<^verbatim>\<open>"usa"\<close>, the marker is stored with the three-character code \<^verbatim>\<open>"USA"\<close>.
\<close>

theorem country_code_counterexample:
  "hearts (snd (post_hearts
     \<lparr>fetch_result = Inr \<lparr>status = 200, text_body = Inr [],
        json_body = Inr (JObj [(''address'',
          JObj [(''country'', JStr ''United States''), (''country_code'', JStr ''usa'')])])\<rparr>,
      received_at = 1000, elapsed = 250, save_error = None, find_error = None,
      unicode_upper = no_tables, driver_cast = dropping\<rparr>
     (JObj [(''type'', JStr ''redHeart''), (''latitude'', JNum (Finite 40)),
            (''longitude'', JNum (Finite (-100)))])
     \<lparr>hearts = [], calls = []\<rparr>))
   = [\<lparr>countryName = JStr ''United States'', countryCode = JStr ''USA'',
       type = JStr ''redHeart'', latitude = JNum (Finite 40),
       longitude = JNum (Finite (-100)), message = JStr [], timestamp = 1250\<rparr>]"
  by (simp add: post_hearts_def destructure_def getCountryFromServerLatLng_def
      getCountry_try_def after_fetch_def ok_def country_of_def or_else_def toUpperCase_usa
      new_Heart_def with_default_def cast_def save_def request_def url_throws_def
      log_call_def Let_def)

section \<open>The timestamp of a stored marker\<close>

text \<open>
  C9. The handler reads \<^verbatim>\<open>type\<close>, \<^verbatim>\<open>latitude\<close>, \<^verbatim>\<open>longitude\<close> and \<^verbatim>\<open>message\<close> of
  the body and nothing else: two requests that agree on these four, whatever else their
  bodies hold (a \<^verbatim>\<open>timestamp\<close>, say), get the same reply and leave the same world, the
  clock, the geocoder and the store behaving the same. The timestamp of a created record
  is the reading of the server's clock when line 83 runs, which is not before the
  request was received (the clock is taken not to be set back while the geocoder is
  awaited).
\<close>

theorem timestamp_is_server_assigned:
  assumes "get_prop b1 ''type'' = get_prop b2 ''type''"
    and "get_prop b1 ''latitude'' = get_prop b2 ''latitude''"
    and "get_prop b1 ''longitude'' = get_prop b2 ''longitude''"
    and "get_prop b1 ''message'' = get_prop b2 ''message''"
  shows "post_hearts env b1 w = post_hearts env b2 w \<and>
         (\<forall>r w'. post_hearts env b1 w = (r, w') \<and> code r = 201 \<longrightarrow>
            (\<exists>h. body r = HeartJson h \<and> hearts w' = hearts w @ [h] \<and>
                 timestamp h = received_at env + int (elapsed env) \<and>
                 received_at env \<le> timestamp h))"
proof (intro conjI allI impI)
  show "post_hearts env b1 w = post_hearts env b2 w"
    using destructure_agree [OF assms] by (simp add: post_hearts_def)
next
  fix r w'
  assume a: "post_hearts env b1 w = (r, w') \<and> code r = 201"
  then have p: "post_hearts env b1 w = (r, w')" and c: "code r = 201"
    by simp_all
  from post_hearts_cases [OF p] c
  have "\<exists>h. r = \<lparr>code = 201, body = HeartJson h\<rparr> \<and> hearts w' = hearts w @ [h] \<and>
            timestamp h = received_at env + int (elapsed env)"
    by (auto simp: failed_to_create_def missing_fields_def new_Heart_timestamp)
  then obtain h where r: "r = \<lparr>code = 201, body = HeartJson h\<rparr>"
    and w: "hearts w' = hearts w @ [h]"
    and t: "timestamp h = received_at env + int (elapsed env)"
    by blast
  from r w t show "\<exists>h. body r = HeartJson h \<and> hearts w' = hearts w @ [h] \<and>
                 timestamp h = received_at env + int (elapsed env) \<and>
                 received_at env \<le> timestamp h"
    by simp
qed

theorem timestamp_is_server_assigned_witness:
  "get_prop (JObj [(''type'', JStr ''redHeart''), (''latitude'', JNum (Finite 48)),
                   (''longitude'', JNum (Finite 2)), (''timestamp'', JNum (Finite 5))]) ''type''
     = get_prop (JObj [(''type'', JStr ''redHeart''), (''latitude'', JNum (Finite 48)),
                   (''longitude'', JNum (Finite 2)), (''timestamp'', JStr ''1999-01-01'')])
         ''type'' \<and>
   post_hearts
     \<lparr>fetch_result = Inl TypeError, received_at = 1000, elapsed = 250,
      save_error = None, find_error = None,
      unicode_upper = no_tables, driver_cast = dropping\<rparr>
     (JObj [(''type'', JStr ''redHeart''), (''latitude'', JNum (Finite 48)),
            (''longitude'', JNum (Finite 2)), (''timestamp'', JNum (Finite 5))])
     \<lparr>hearts = [], calls = []\<rparr>
   = post_hearts
     \<lparr>fetch_result = Inl TypeError, received_at = 1000, elapsed = 250,
      save_error = None, find_error = None,
      unicode_upper = no_tables, driver_cast = dropping\<rparr>
     (JObj [(''type'', JStr ''redHeart''), (''latitude'', JNum (Finite 48)),
            (''longitude'', JNum (Finite 2)), (''timestamp'', JStr ''1999-01-01'')])
     \<lparr>hearts = [], calls = []\<rparr> \<and>
   hearts (snd (post_hearts
     \<lparr>fetch_result = Inl TypeError, received_at = 1000, elapsed = 250,
      save_error = None, find_error = None,
      unicode_upper = no_tables, driver_cast = dropping\<rparr>
     (JObj [(''type'', JStr ''redHeart''), (''latitude'', JNum (Finite 48)),
            (''longitude'', JNum (Finite 2)), (''timestamp'', JNum (Finite 5))])
     \<lparr>hearts = [], calls = []\<rparr>))
   = [\<lparr>countryName = JStr ''an unknown location'', countryCode = JStr ''XX'',
       type = JStr ''redHeart'', latitude = JNum (Finite 48), longitude = JNum (Finite 2),
       message = JStr [], timestamp = 1250\<rparr>]"
proof -
  have e: "post_hearts
     \<lparr>fetch_result = Inl TypeError, received_at = 1000, elapsed = 250,
      save_error = None, find_error = None,
      unicode_upper = no_tables, driver_cast = dropping\<rparr>
     (JObj [(''type'', JStr ''redHeart''), (''latitude'', JNum (Finite 48)),
            (''longitude'', JNum (Finite 2)), (''timestamp'', JNum (Finite 5))])
     \<lparr>hearts = [], calls = []\<rparr>
   = post_hearts
     \<lparr>fetch_result = Inl TypeError, received_at = 1000, elapsed = 250,
      save_error = None, find_error = None,
      unicode_upper = no_tables, driver_cast = dropping\<rparr>
     (JObj [(''type'', JStr ''redHeart''), (''latitude'', JNum (Finite 48)),
            (''longitude'', JNum (Finite 2)), (''timestamp'', JStr ''1999-01-01'')])
     \<lparr>hearts = [], calls = []\<rparr>"
    using timestamp_is_server_assigned
      [of "JObj [(''type'', JStr ''redHeart''), (''latitude'', JNum (Finite 48)),
            (''longitude'', JNum (Finite 2)), (''timestamp'', JNum (Finite 5))]"
          "JObj [(''type'', JStr ''redHeart''), (''latitude'', JNum (Finite 48)),
            (''longitude'', JNum (Finite 2)), (''timestamp'', JStr ''1999-01-01'')]"
          "\<lparr>fetch_result = Inl TypeError, received_at = 1000, elapsed = 250,
            save_error = None, find_error = None,
            unicode_upper = no_tables, driver_cast = dropping\<rparr>" "\<lparr>hearts = [], calls = []\<rparr>"]
    by simp
  have v: "hearts (snd (post_hearts
     \<lparr>fetch_result = Inl TypeError, received_at = 1000, elapsed = 250,
      save_error = None, find_error = None,
      unicode_upper = no_tables, driver_cast = dropping\<rparr>
     (JObj [(''type'', JStr ''redHeart''), (''latitude'', JNum (Finite 48)),
            (''longitude'', JNum (Finite 2)), (''timestamp'', JNum (Finite 5))])
     \<lparr>hearts = [], calls = []\<rparr>))
   = [\<lparr>countryName = JStr ''an unknown location'', countryCode = JStr ''XX'',
       type = JStr ''redHeart'', latitude = JNum (Finite 48), longitude = JNum (Finite 2),
       message = JStr [], timestamp = 1250\<rparr>]"
    by (simp add: post_hearts_def destructure_def getCountryFromServerLatLng_def
      getCountry_try_def after_fetch_def fallback_def new_Heart_def with_default_def
      cast_def or_else_def save_def request_def url_throws_def log_call_def Let_def)
  from e v show ?thesis by simp
qed

section \<open>Coordinates and messages that are defined but odd\<close>

text \<open>
  C10. A creation request whose \<^verbatim>\<open>latitude\<close> and \<^verbatim>\<open>longitude\<close> are anything but
  \<^verbatim>\<open>undefined\<close> (\<^verbatim>\<open>null\<close>, a string, any JSON value), with a truthy \<^verbatim>\<open>type\<close>, is not
  answered with 400. The handler calls \<^verbatim>\<open>getCountryFromServerLatLng\<close> with these two
  values, which requests the geocoder unless no URL can be built from them, and then
  calls \<^verbatim>\<open>save\<close> on the document that \<^verbatim>\<open>new Heart\<close> makes of the request and of the
  pair returned. In that document the coordinates are the two values as the driver casts
  them to Number, and the message is the empty string when the message of the request
  is falsy. The document is the one stored when the store accepts it.
\<close>

theorem defined_coordinates_proceed:
  assumes "destructure b = Inr (ty, lat, lng, msg)"
    and "\<not> is_undefined lat" and "\<not> is_undefined lng" and "truthy ty"
  shows "code (fst (post_hearts env b w)) \<noteq> 400 \<and>
         (\<exists>g h. fst (getCountryFromServerLatLng env lat lng w) = Inr g \<and>
              h = new_Heart env ty lat lng (or_else msg (JStr [])) (countryName g)
                    (countryCode g) (received_at env + int (elapsed env)) \<and>
              calls (snd (post_hearts env b w)) =
                calls w @ (if url_throws lat lng then [] else [Fetch lat lng]) @ [Save h] \<and>
              latitude h = cast env SNumber lat \<and> longitude h = cast env SNumber lng \<and>
              message h = (if truthy msg then cast env SString msg else JStr []) \<and>
              (save_error env = None \<longrightarrow>
                 hearts (snd (post_hearts env b w)) = hearts w @ [h]))"
proof -
  obtain g where g: "getCountryFromServerLatLng env lat lng w = (Inr g, request lat lng w)"
    using getCountry_never_throws by blast
  note p = post_hearts_valid [OF assms g]
  have c: "code (fst (post_hearts env b w)) \<noteq> 400"
    unfolding p by (rule save_code)
  let ?h = "new_Heart env ty lat lng (or_else msg (JStr [])) (countryName g) (countryCode g)
              (received_at env + int (elapsed env))"
  have f: "latitude ?h = cast env SNumber lat \<and> longitude ?h = cast env SNumber lng"
    by (rule new_Heart_coordinates)
  have m: "message ?h = (if truthy msg then cast env SString msg else JStr [])"
    by (rule new_Heart_message)
  have s: "calls (snd (post_hearts env b w)) =
      calls w @ (if url_throws lat lng then [] else [Fetch lat lng]) @ [Save ?h]"
    unfolding p by (simp add: save_def log_call_def calls_request split: option.splits)
  have k: "save_error env = None \<longrightarrow> hearts (snd (post_hearts env b w)) = hearts w @ [?h]"
    unfolding p by (simp add: save_def log_call_def hearts_request)
  show ?thesis
  proof (intro conjI)
    show "code (fst (post_hearts env b w)) \<noteq> 400" by (rule c)
    show "\<exists>g h. fst (getCountryFromServerLatLng env lat lng w) = Inr g \<and>
              h = new_Heart env ty lat lng (or_else msg (JStr [])) (countryName g)
                    (countryCode g) (received_at env + int (elapsed env)) \<and>
              calls (snd (post_hearts env b w)) =
                calls w @ (if url_throws lat lng then [] else [Fetch lat lng]) @ [Save h] \<and>
              latitude h = cast env SNumber lat \<and> longitude h = cast env SNumber lng \<and>
              message h = (if truthy msg then cast env SString msg else JStr []) \<and>
              (save_error env = None \<longrightarrow>
                 hearts (snd (post_hearts env b w)) = hearts w @ [h])"
      using g f m s k by (intro exI [of _ g] exI [of _ ?h]) simp
  qed
qed

theorem defined_coordinates_proceed_witness:
  "destructure (JObj [(''type'', JStr ''redHeart''), (''latitude'', JNum (Finite 48)),
                      (''longitude'', JStr ''north''), (''message'', JNum (Finite 0))])
     = Inr (JStr ''redHeart'', JNum (Finite 48), JStr ''north'', JNum (Finite 0)) \<and>
   post_hearts
     \<lparr>fetch_result = Inl TypeError, received_at = 1000, elapsed = 250,
      save_error = Some (Error ''Heart validation failed''), find_error = None,
      unicode_upper = no_tables, driver_cast = dropping\<rparr>
     (JObj [(''type'', JStr ''redHeart''), (''latitude'', JNum (Finite 48)),
            (''longitude'', JStr ''north''), (''message'', JNum (Finite 0))])
     \<lparr>hearts = [], calls = []\<rparr>
   = (\<lparr>code = 500, body = ErrorJson ''Failed to create heart''\<rparr>,
      \<lparr>hearts = [],
       calls =
        [Fetch (JNum (Finite 48)) (JStr ''north''),
         Save \<lparr>countryName = JStr ''an unknown location'', countryCode = JStr ''XX'',
          type = JStr ''redHeart'', latitude = JNum (Finite 48), longitude = JUndefined,
          message = JStr [], timestamp = 1250\<rparr>]\<rparr>) \<and>
   destructure (JObj [(''type'', JStr ''redHeart''), (''latitude'', JNum (Finite 48)),
                      (''longitude'', JNum (Finite 2)), (''message'', JBool False)])
     = Inr (JStr ''redHeart'', JNum (Finite 48), JNum (Finite 2), JBool False) \<and>
   hearts (snd (post_hearts
     \<lparr>fetch_result = Inl TypeError, received_at = 1000, elapsed = 250,
      save_error = None, find_error = None,
      unicode_upper = no_tables, driver_cast = dropping\<rparr>
     (JObj [(''type'', JStr ''redHeart''), (''latitude'', JNum (Finite 48)),
            (''longitude'', JNum (Finite 2)), (''message'', JBool False)])
     \<lparr>hearts = [], calls = []\<rparr>))
   = [\<lparr>countryName = JStr ''an unknown location'', countryCode = JStr ''XX'',
       type = JStr ''redHeart'', latitude = JNum (Finite 48), longitude = JNum (Finite 2),
       message = JStr [], timestamp = 1250\<rparr>]"
proof -
  have d: "destructure (JObj [(''type'', JStr ''redHeart''), (''latitude'', JNum (Finite 48)),
                      (''longitude'', JStr ''north''), (''message'', JNum (Finite 0))])
     = Inr (JStr ''redHeart'', JNum (Finite 48), JStr ''north'', JNum (Finite 0))"
    by (simp add: destructure_def)
  have d2: "destructure (JObj [(''type'', JStr ''redHeart''), (''latitude'', JNum (Finite 48)),
                      (''longitude'', JNum (Finite 2)), (''message'', JBool False)])
     = Inr (JStr ''redHeart'', JNum (Finite 48), JNum (Finite 2), JBool False)"
    by (simp add: destructure_def)
  have v: "post_hearts
     \<lparr>fetch_result = Inl TypeError, received_at = 1000, elapsed = 250,
      save_error = Some (Error ''Heart validation failed''), find_error = None,
      unicode_upper = no_tables, driver_cast = dropping\<rparr>
     (JObj [(''type'', JStr ''redHeart''), (''latitude'', JNum (Finite 48)),
            (''longitude'', JStr ''north''), (''message'', JNum (Finite 0))])
     \<lparr>hearts = [], calls = []\<rparr>
   = (\<lparr>code = 500, body = ErrorJson ''Failed to create heart''\<rparr>,
      \<lparr>hearts = [],
       calls =
        [Fetch (JNum (Finite 48)) (JStr ''north''),
         Save \<lparr>countryName = JStr ''an unknown location'', countryCode = JStr ''XX'',
          type = JStr ''redHeart'', latitude = JNum (Finite 48), longitude = JUndefined,
          message = JStr [], timestamp = 1250\<rparr>]\<rparr>)"
    by (simp add: post_hearts_def destructure_def getCountryFromServerLatLng_def
      getCountry_try_def after_fetch_def fallback_def new_Heart_def with_default_def
      cast_def dropping_def or_else_def save_def request_def url_throws_def log_call_def
      Let_def failed_to_create_def)
  have v2: "hearts (snd (post_hearts
     \<lparr>fetch_result = Inl TypeError, received_at = 1000, elapsed = 250,
      save_error = None, find_error = None,
      unicode_upper = no_tables, driver_cast = dropping\<rparr>
     (JObj [(''type'', JStr ''redHeart''), (''latitude'', JNum (Finite 48)),
            (''longitude'', JNum (Finite 2)), (''message'', JBool False)])
     \<lparr>hearts = [], calls = []\<rparr>))
   = [\<lparr>countryName = JStr ''an unknown location'', countryCode = JStr ''XX'',
       type = JStr ''redHeart'', latitude = JNum (Finite 48), longitude = JNum (Finite 2),
       message = JStr [], timestamp = 1250\<rparr>]"
    by (simp add: post_hearts_def destructure_def getCountryFromServerLatLng_def
      getCountry_try_def after_fetch_def fallback_def new_Heart_def with_default_def
      cast_def or_else_def save_def request_def url_throws_def log_call_def Let_def)
  have "code (fst (post_hearts
     \<lparr>fetch_result = Inl TypeError, received_at = 1000, elapsed = 250,
      save_error = Some (Error ''Heart validation failed''), find_error = None,
      unicode_upper = no_tables, driver_cast = dropping\<rparr>
     (JObj [(''type'', JStr ''redHeart''), (''latitude'', JNum (Finite 48)),
            (''longitude'', JStr ''north''), (''message'', JNum (Finite 0))])
     \<lparr>hearts = [], calls = []\<rparr>)) \<noteq> 400"
    using defined_coordinates_proceed [OF d, of
      "\<lparr>fetch_result = Inl TypeError, received_at = 1000, elapsed = 250,
      save_error = Some (Error ''Heart validation failed''), find_error = None,
      unicode_upper = no_tables, driver_cast = dropping\<rparr>"
      "\<lparr>hearts = [], calls = []\<rparr>"]
    by simp
  with d d2 v v2 show ?thesis by simp
qed

text \<open>
  With a latitude that has a property \<^verbatim>\<open>toString\<close> of its own, line 44 throws before
  \<^verbatim>\<open>fetch\<close> is called: the pair returned is the fallback, and no request leaves for the
  geocoder.
\<close>

lemma no_url_no_request:
  "getCountryFromServerLatLng
     \<lparr>fetch_result = Inl TypeError, received_at = 1000, elapsed = 250,
      save_error = None, find_error = None,
      unicode_upper = no_tables, driver_cast = dropping\<rparr>
     (JObj [(''toString'', JNum (Finite 1))]) (JNum (Finite 2))
     \<lparr>hearts = [], calls = []\<rparr>
   = (Inr \<lparr>countryName = JStr ''an unknown location'', countryCode = JStr ''XX''\<rparr>,
      \<lparr>hearts = [], calls = []\<rparr>)"
  by (simp add: getCountryFromServerLatLng_def getCountry_try_def fallback_def request_def
      url_throws_def)

end
